theory Spec2Isabelle
  imports Main
begin

section \<open>Subscriptions (src/billing/subscription.h; subscription.c, in src/auth/auth.c)\<close>

text \<open>
  Timestamps are \<open>time_t\<close> values (64-bit seconds since the epoch) and are modelled as
  \<open>int\<close>; row and account identifiers are C \<open>int\<close>s that are only compared, never
  computed with, and are modelled as \<open>int\<close> too. Sums and differences of timestamps
  stay far from the 64-bit limits and are not wrapped. Every call of \<open>time(NULL)\<close> is an
  input of the function that makes it. Where two structures of the source have a field
  of the same name, the fields carry a prefix here (\<open>sub_id\<close> for \<open>id\<close> of
  \<open>subscription_t\<close>, \<open>c_plan\<close> for the column \<open>plan\<close> of subscriptions, and so on).
\<close>

datatype plan_t = PLAN_FREE | PLAN_PRO | PLAN_ENTERPRISE

datatype subscription_status_t =
  STATUS_ACTIVE | STATUS_GRACE_PERIOD | STATUS_EXPIRED | STATUS_CANCELLED

record subscription_t =
  sub_id :: int
  sub_account_id :: int
  plan :: plan_t
  status :: subscription_status_t
  valid_from :: int
  valid_until :: int
  grace_until :: int
  provider :: string
  external_id :: string
  sub_notes :: string
  sub_created_at :: int
  sub_updated_at :: int

definition subscription_plan_to_string :: "plan_t \<Rightarrow> string" where
  "subscription_plan_to_string p =
     (case p of PLAN_FREE \<Rightarrow> ''free'' | PLAN_PRO \<Rightarrow> ''pro'' | PLAN_ENTERPRISE \<Rightarrow> ''enterprise'')"

definition subscription_status_to_string :: "subscription_status_t \<Rightarrow> string" where
  "subscription_status_to_string s =
     (case s of STATUS_ACTIVE \<Rightarrow> ''active'' | STATUS_GRACE_PERIOD \<Rightarrow> ''grace_period''
      | STATUS_EXPIRED \<Rightarrow> ''expired'' | STATUS_CANCELLED \<Rightarrow> ''cancelled'')"

definition subscription_string_to_plan :: "string \<Rightarrow> plan_t" where
  "subscription_string_to_plan str =
     (if str = ''free'' then PLAN_FREE
      else if str = ''pro'' then PLAN_PRO
      else if str = ''enterprise'' then PLAN_ENTERPRISE
      else PLAN_FREE)"

definition subscription_string_to_status :: "string \<Rightarrow> subscription_status_t" where
  "subscription_string_to_status str =
     (if str = ''active'' then STATUS_ACTIVE
      else if str = ''grace_period'' then STATUS_GRACE_PERIOD
      else if str = ''expired'' then STATUS_EXPIRED
      else if str = ''cancelled'' then STATUS_CANCELLED
      else STATUS_EXPIRED)"

text \<open>
  \<open>subscription_is_valid\<close>: the first argument is the value \<open>time(NULL)\<close> returns. Only
  the statuses cancelled and expired reach the grace test; active and grace_period both
  fall through to the validity window.
\<close>

definition subscription_is_valid :: "int \<Rightarrow> subscription_t \<Rightarrow> int" where
  "subscription_is_valid now sub =
     (if status sub = STATUS_CANCELLED \<or> status sub = STATUS_EXPIRED then
        (if grace_until sub > 0 \<and> now \<le> grace_until sub then 1 else 0)
      else if now < valid_from sub \<or> now > valid_until sub then 0
      else 1)"


section \<open>The store (config/schema.sql; db.c, in src/unnamed/part_002)\<close>

text \<open>
  The tables are lists of rows in insertion order. Text columns that the application
  always binds are strings; columns that an insert may leave out are options, \<open>None\<close>
  being SQL NULL. \<open>sqlite3_column_int64\<close> reads NULL as 0.
\<close>

record subscriptions_row =
  c_id :: int
  c_account_id :: int
  c_plan :: string
  c_status :: string
  c_valid_from :: int
  c_valid_until :: int
  c_grace_until :: "int option"
  c_provider :: string
  c_external_id :: string
  c_notes :: string
  c_created_at :: int
  c_updated_at :: int

record billing_events_row =
  ev_id :: int
  ev_account_id :: int
  event_type :: string
  previous_plan :: "string option"
  new_plan :: "string option"
  previous_status :: "string option"
  new_status :: "string option"
  amount_cents :: "int option"
  currency :: "string option"
  payment_method :: "string option"
  external_reference :: "string option"
  admin_user_id :: "int option"
  ev_notes :: "string option"
  occurred_at :: int

record sessions_row =
  s_id :: int
  s_user_id :: int
  token :: string
  created_at :: int
  expires_at :: int
  last_activity_at :: int
  ip_address :: string
  user_agent :: string

record users_row =
  u_id :: int
  u_account_id :: int
  email :: string
  role :: string
  is_active :: int

record tables =
  subscriptions :: "subscriptions_row list"
  billing_events :: "billing_events_row list"
  sessions :: "sessions_row list"
  users :: "users_row list"

text \<open>
  The column \<open>is_valid\<close> of the view \<open>v_active_subscriptions\<close> (schema.sql), for one
  row of subscriptions at the time \<open>now\<close>. A comparison with NULL is not true.
\<close>

definition v_active_subscriptions_is_valid :: "int \<Rightarrow> subscriptions_row \<Rightarrow> int" where
  "v_active_subscriptions_is_valid now r =
     (if c_status r = ''active'' \<and> c_valid_until r > now then 1
      else if c_status r = ''grace_period''
              \<and> (case c_grace_until r of None \<Rightarrow> False | Some g \<Rightarrow> g > now) then 1
      else 0)"

text \<open>
  The connection \<open>g_db\<close>: the live tables, and the tables as they were at BEGIN while a
  transaction is open. BEGIN inside a transaction is an error that changes nothing,
  ROLLBACK restores the tables saved at BEGIN (and is an error that changes nothing
  outside a transaction), COMMIT keeps the live tables and closes the transaction. The
  callers ignore the return values of all three, so the model returns the connection
  only; COMMIT is taken to succeed.
\<close>

record db =
  live :: tables
  txn :: "tables option"

definition db_begin_transaction :: "db \<Rightarrow> db" where
  "db_begin_transaction d = (case txn d of None \<Rightarrow> d\<lparr>txn := Some (live d)\<rparr> | Some t \<Rightarrow> d)"

definition db_commit_transaction :: "db \<Rightarrow> db" where
  "db_commit_transaction d = d\<lparr>txn := None\<rparr>"

definition db_rollback_transaction :: "db \<Rightarrow> db" where
  "db_rollback_transaction d =
     (case txn d of None \<Rightarrow> d | Some t \<Rightarrow> \<lparr>live = t, txn = None\<rparr>)"

text \<open>
  What the store answers to one prepared statement: \<open>db_prepare\<close> may fail, and
  \<open>sqlite3_step\<close> may report an error (busy, full, I/O, a foreign key that does not
  resolve) instead of doing its work. Both are inputs of the function that runs the
  statement. The UNIQUE constraint on the account of a subscription is part of the model
  of the INSERT, since it decides which rows can exist.
\<close>

record stmt_faults =
  prepare_fails :: bool
  step_fails :: bool

definition no_faults :: stmt_faults where
  "no_faults = \<lparr>prepare_fails = False, step_fails = False\<rparr>"

text \<open>The rowid SQLite gives an INTEGER PRIMARY KEY left out of an insert.\<close>

definition next_rowid :: "int list \<Rightarrow> int" where
  "next_rowid ids = fold max ids 0 + 1"

text \<open>
  \<open>safe_strncpy\<close> (string_utils.c, in src/unnamed/part_004): copies at most
  \<open>dest_size - 1\<close> characters, and nothing into a buffer of size 0.
\<close>

definition safe_strncpy :: "string \<Rightarrow> string \<Rightarrow> nat \<Rightarrow> string" where
  "safe_strncpy dest src dest_size = (if dest_size = 0 then dest else take (dest_size - 1) src)"

text \<open>
  The three statements of \<open>subscription_update\<close>. The UPDATE rewrites plan, status,
  valid_until, notes and updated_at of the rows of the account and nothing else. The
  INSERT writes the literal 0 into grace_until and is refused by the UNIQUE constraint on
  account_id when the account already has a row.
\<close>

definition sql_update_subscription ::
  "string \<Rightarrow> string \<Rightarrow> int \<Rightarrow> string \<Rightarrow> int \<Rightarrow> int \<Rightarrow> subscriptions_row list
     \<Rightarrow> subscriptions_row list option" where
  "sql_update_subscription p s vu n upd acct rows =
     Some (map (\<lambda>r. if c_account_id r = acct
                     then r\<lparr>c_plan := p, c_status := s, c_valid_until := vu,
                            c_notes := n, c_updated_at := upd\<rparr>
                     else r) rows)"

definition sql_insert_subscription ::
  "string \<Rightarrow> string \<Rightarrow> int \<Rightarrow> int \<Rightarrow> string \<Rightarrow> int \<Rightarrow> int \<Rightarrow> int \<Rightarrow> subscriptions_row list
     \<Rightarrow> subscriptions_row list option" where
  "sql_insert_subscription p s vf vu n cr upd acct rows =
     (if list_ex (\<lambda>r. c_account_id r = acct) rows then None
      else Some (rows @
        [\<lparr>c_id = next_rowid (map c_id rows), c_account_id = acct, c_plan = p, c_status = s,
          c_valid_from = vf, c_valid_until = vu, c_grace_until = Some 0,
          c_provider = ''manual'', c_external_id = '''', c_notes = n,
          c_created_at = cr, c_updated_at = upd\<rparr>]))"

definition sql_insert_billing_event ::
  "billing_events_row \<Rightarrow> billing_events_row list \<Rightarrow> billing_events_row list" where
  "sql_insert_billing_event e rows = rows @ [e\<lparr>ev_id := next_rowid (map ev_id rows)\<rparr>]"

definition subscription_get_by_account :: "stmt_faults \<Rightarrow> int \<Rightarrow> db \<Rightarrow> subscription_t option" where
  "subscription_get_by_account q acct d =
     (if prepare_fails q then None
      else if step_fails q then None
      else case find (\<lambda>r. c_account_id r = acct) (subscriptions (live d)) of
             None \<Rightarrow> None
           | Some r \<Rightarrow> Some
               \<lparr>sub_id = c_id r, sub_account_id = c_account_id r,
                plan = subscription_string_to_plan (c_plan r),
                status = subscription_string_to_status (c_status r),
                valid_from = c_valid_from r, valid_until = c_valid_until r,
                grace_until = (case c_grace_until r of None \<Rightarrow> 0 | Some g \<Rightarrow> g),
                provider = safe_strncpy '''' (c_provider r) 32,
                external_id = safe_strncpy '''' (c_external_id r) 128,
                sub_notes = safe_strncpy '''' (c_notes r) 512,
                sub_created_at = c_created_at r, sub_updated_at = c_updated_at r\<rparr>)"

text \<open>
  \<open>subscription_update\<close>. The environment gives the
  value of \<open>time(NULL)\<close> and the faults of the SELECT, of the UPDATE or INSERT, and of the
  ledger INSERT. The result is the return code and the connection after the call.
\<close>

record update_env =
  u_now :: int
  u_get :: stmt_faults
  u_upsert :: stmt_faults
  u_event :: stmt_faults

definition subscription_update ::
  "update_env \<Rightarrow> int \<Rightarrow> plan_t \<Rightarrow> subscription_status_t \<Rightarrow> int \<Rightarrow> int \<Rightarrow> string option
     \<Rightarrow> db \<Rightarrow> int \<times> db" where
  "subscription_update env acct new_plan' new_status' valid_until' admin notes d0 =
     (let current_sub = subscription_get_by_account (u_get env) acct d0;
          has_current = (current_sub \<noteq> None);
          d1 = db_begin_transaction d0
      in if prepare_fails (u_upsert env) then (- 1, db_rollback_transaction d1)
         else
           let now = u_now env;
               ntext = (case notes of None \<Rightarrow> '''' | Some n \<Rightarrow> n);
               stepped =
                 (if step_fails (u_upsert env) then None
                  else if has_current then
                    sql_update_subscription (subscription_plan_to_string new_plan')
                      (subscription_status_to_string new_status') valid_until' ntext now acct
                      (subscriptions (live d1))
                  else
                    sql_insert_subscription (subscription_plan_to_string new_plan')
                      (subscription_status_to_string new_status') now valid_until' ntext now now
                      acct (subscriptions (live d1)))
           in case stepped of
                None \<Rightarrow> (- 1, db_rollback_transaction d1)
              | Some subs \<Rightarrow>
                  let d2 = d1\<lparr>live := (live d1)\<lparr>subscriptions := subs\<rparr>\<rparr>
                  in if prepare_fails (u_event env) then (- 1, db_rollback_transaction d2)
                     else if step_fails (u_event env) then (- 1, db_rollback_transaction d2)
                     else
                       let e = \<lparr>ev_id = 0, ev_account_id = acct,
                                event_type = ''subscription_update'',
                                previous_plan = Some (case current_sub of
                                    None \<Rightarrow> ''none''
                                  | Some c \<Rightarrow> subscription_plan_to_string (plan c)),
                                new_plan = Some (subscription_plan_to_string new_plan'),
                                previous_status = Some (case current_sub of
                                    None \<Rightarrow> ''none''
                                  | Some c \<Rightarrow> subscription_status_to_string (status c)),
                                new_status = Some (subscription_status_to_string new_status'),
                                amount_cents = None, currency = Some ''USD'',
                                payment_method = None, external_reference = None,
                                admin_user_id = Some admin, ev_notes = Some ntext,
                                occurred_at = now\<rparr>;
                           d3 = d2\<lparr>live := (live d2)\<lparr>billing_events :=
                                  sql_insert_billing_event e (billing_events (live d2))\<rparr>\<rparr>
                       in (0, db_commit_transaction d3))"

record create_env =
  c_now :: int
  c_update :: update_env

definition subscription_create :: "create_env \<Rightarrow> int \<Rightarrow> plan_t \<Rightarrow> db \<Rightarrow> int \<times> db" where
  "subscription_create env acct p d =
     (let now = c_now env;
          valid_until' = now + 365 * 24 * 60 * 60
      in subscription_update (c_update env) acct p STATUS_ACTIVE valid_until' 0
           (Some ''Initial subscription'') d)"

section \<open>Entitlements (entitlement.c, in src/billing/subscription.h)\<close>

datatype feature_t =
  FEATURE_BASIC_REPORTS | FEATURE_ADVANCED_REPORTS | FEATURE_EXTENDED_DATE_RANGE
  | FEATURE_CSV_EXPORT | FEATURE_REPORT_GROUPING | FEATURE_API_ACCESS
  | FEATURE_PRIORITY_SUPPORT

record entitlement_env =
  e_now :: int
  e_get :: stmt_faults

definition entitlement_has_feature :: "entitlement_env \<Rightarrow> int \<Rightarrow> feature_t \<Rightarrow> db \<Rightarrow> int" where
  "entitlement_has_feature env acct feature d =
     (case subscription_get_by_account (e_get env) acct d of
        None \<Rightarrow> 0
      | Some sub \<Rightarrow>
          if subscription_is_valid (e_now env) sub = 0 then 0
          else (case plan sub of
                  PLAN_FREE \<Rightarrow> (if feature = FEATURE_BASIC_REPORTS then 1 else 0)
                | PLAN_PRO \<Rightarrow> (if feature \<noteq> FEATURE_PRIORITY_SUPPORT then 1 else 0)
                | PLAN_ENTERPRISE \<Rightarrow> 1))"

section \<open>Admin billing (src/billing/admin.c)\<close>

record log_env =
  l_now :: int
  l_insert :: stmt_faults

definition billing_log_event ::
  "log_env \<Rightarrow> int \<Rightarrow> string \<Rightarrow> string option \<Rightarrow> string option \<Rightarrow> string option \<Rightarrow> string option
     \<Rightarrow> int \<Rightarrow> string option \<Rightarrow> string option \<Rightarrow> string option \<Rightarrow> int \<Rightarrow> string option
     \<Rightarrow> db \<Rightarrow> int \<times> db" where
  "billing_log_event env acct etype prev_plan new_plan' prev_status new_status' amount cur
       pay_method ext_ref admin notes d =
     (if prepare_fails (l_insert env) then (- 1, d)
      else
        let now = l_now env;
            dflt = (\<lambda>v x. case x of None \<Rightarrow> v | Some y \<Rightarrow> y);
            e = \<lparr>ev_id = 0, ev_account_id = acct, event_type = etype,
                 previous_plan = Some (dflt '''' prev_plan),
                 new_plan = Some (dflt '''' new_plan'),
                 previous_status = Some (dflt '''' prev_status),
                 new_status = Some (dflt '''' new_status'),
                 amount_cents = Some amount, currency = Some (dflt ''USD'' cur),
                 payment_method = Some (dflt '''' pay_method),
                 external_reference = Some (dflt '''' ext_ref),
                 admin_user_id = Some admin, ev_notes = Some (dflt '''' notes),
                 occurred_at = now\<rparr>
        in if step_fails (l_insert env) then (- 1, d)
           else (0, d\<lparr>live := (live d)\<lparr>billing_events :=
                        sql_insert_billing_event e (billing_events (live d))\<rparr>\<rparr>))"

text \<open>
  \<open>duration_days * 24 * 60 * 60\<close> is computed in C \<open>int\<close>; the model writes the 32-bit
  two's-complement wrap-around out.
\<close>

definition int32 :: "int \<Rightarrow> int" where
  "int32 x = signed_take_bit 31 x"

record paid_env =
  p_now :: int
  p_update :: update_env
  p_log :: log_env

definition billing_mark_as_paid ::
  "paid_env \<Rightarrow> int \<Rightarrow> plan_t \<Rightarrow> int \<Rightarrow> int \<Rightarrow> string option \<Rightarrow> string option \<Rightarrow> int
     \<Rightarrow> string option \<Rightarrow> db \<Rightarrow> int \<times> db" where
  "billing_mark_as_paid env acct p duration_days amount pay_method ext_ref admin notes d =
     (let now = p_now env;
          valid_until' = now + int32 (int32 (int32 (duration_days * 24) * 60) * 60);
          (result, d1) = subscription_update (p_update env) acct p STATUS_ACTIVE valid_until'
                           admin notes d
      in if result \<noteq> 0 then (- 1, d1)
         else
           let (logged, d2) = billing_log_event (p_log env) acct ''payment_received''
                                None (Some (subscription_plan_to_string p))
                                None (Some (subscription_status_to_string STATUS_ACTIVE))
                                amount (Some ''USD'') pay_method ext_ref admin notes d1
           in (0, d2))"

section \<open>Requests and responses (src/core/request.h; request.c and response.c, in src/core/response.c)\<close>

datatype http_method_t =
  HTTP_GET | HTTP_POST | HTTP_HEAD | HTTP_PUT | HTTP_DELETE | HTTP_UNKNOWN

text \<open>
  The fields of \<open>http_request_t\<close> that the session manager and the router read or
  write. \<open>cookies\<close> holds the \<open>name=value\<close> pairs of the Cookie header.
\<close>

record http_request_t =
  req_method :: http_method_t
  req_path :: string
  cookies :: "string list"
  client_ip :: string
  user_id :: int
  account_id :: int
  user_email :: string
  user_role :: string
  is_authenticated :: int

text \<open>
  \<open>request_get_cookie\<close>: the first cookie that starts with the name and has \<open>=\<close> right
  after it; the result is the text after the \<open>=\<close>, \<open>None\<close> for NULL.
\<close>

fun request_get_cookie_loop :: "string list \<Rightarrow> string \<Rightarrow> string option" where
  "request_get_cookie_loop [] name = None"
| "request_get_cookie_loop (c # cs) name =
     (if take (length name) c = name \<and> length name < length c \<and> c ! length name = CHR ''=''
      then Some (drop (length name + 1) c)
      else request_get_cookie_loop cs name)"

definition request_get_cookie :: "http_request_t \<Rightarrow> string \<Rightarrow> string option" where
  "request_get_cookie req name = request_get_cookie_loop (cookies req) name"

record http_response_t =
  status_code :: int
  status_message :: string
  headers :: "string list"
  body :: string

definition MAX_RESPONSE_HEADERS :: nat where
  "MAX_RESPONSE_HEADERS = 32"

text \<open>Decimal digits of a number, as \<open>snprintf\<close> prints them.\<close>

fun string_of_nat :: "nat \<Rightarrow> string" where
  "string_of_nat n =
     (if n < 10 then [''0123456789'' ! n]
      else string_of_nat (n div 10) @ [''0123456789'' ! (n mod 10)])"

definition response_new :: http_response_t where
  "response_new = \<lparr>status_code = 200, status_message = ''OK'', headers = [], body = ''''\<rparr>"

definition response_set_status :: "http_response_t \<Rightarrow> int \<Rightarrow> http_response_t" where
  "response_set_status resp code =
     resp\<lparr>status_code := code,
          status_message :=
            (if code = 200 then ''OK''
             else if code = 201 then ''Created''
             else if code = 204 then ''No Content''
             else if code = 301 then ''Moved Permanently''
             else if code = 302 then ''Found''
             else if code = 303 then ''See Other''
             else if code = 304 then ''Not Modified''
             else if code = 400 then ''Bad Request''
             else if code = 401 then ''Unauthorized''
             else if code = 403 then ''Forbidden''
             else if code = 404 then ''Not Found''
             else if code = 405 then ''Method Not Allowed''
             else if code = 429 then ''Too Many Requests''
             else if code = 500 then ''Internal Server Error''
             else if code = 503 then ''Service Unavailable''
             else ''Unknown'')\<rparr>"

definition response_add_header :: "http_response_t \<Rightarrow> string \<Rightarrow> string \<Rightarrow> http_response_t" where
  "response_add_header resp name v =
     (if length (headers resp) \<ge> MAX_RESPONSE_HEADERS then resp
      else resp\<lparr>headers := headers resp @ [name @ '': '' @ v]\<rparr>)"

definition response_set_body :: "http_response_t \<Rightarrow> string \<Rightarrow> http_response_t" where
  "response_set_body resp b =
     response_add_header (resp\<lparr>body := b\<rparr>) ''Content-Length'' (string_of_nat (length b))"

definition response_set_content_type :: "http_response_t \<Rightarrow> string \<Rightarrow> http_response_t" where
  "response_set_content_type resp ct = response_add_header resp ''Content-Type'' ct"

definition response_redirect :: "http_response_t \<Rightarrow> string \<Rightarrow> int \<Rightarrow> http_response_t" where
  "response_redirect resp url permanent =
     response_set_body
       (response_add_header (response_set_status resp (if permanent \<noteq> 0 then 301 else 302))
          ''Location'' url)
       ''''"

section \<open>Sessions (src/auth/session.c)\<close>

definition SESSION_INACTIVITY_SECONDS :: int where
  "SESSION_INACTIVITY_SECONDS = 86400 * 1"

record activity_env =
  a_now :: int
  a_update :: stmt_faults

text \<open>
  \<open>session_update_activity\<close>: the UPDATE sets last_activity_at of the rows with the token
  and no other column.
\<close>

definition session_update_activity :: "activity_env \<Rightarrow> string \<Rightarrow> db \<Rightarrow> int \<times> db" where
  "session_update_activity env tok d =
     (if prepare_fails (a_update env) then (- 1, d)
      else
        let now = a_now env
        in if step_fails (a_update env) then (- 1, d)
           else (0, d\<lparr>live := (live d)\<lparr>sessions :=
                        map (\<lambda>s. if token s = tok then s\<lparr>last_activity_at := now\<rparr> else s)
                          (sessions (live d))\<rparr>\<rparr>))"

text \<open>
  The SELECT of \<open>session_validate\<close>: sessions joined with their users, for the token and
  active users only; the first row, if any.
\<close>

definition sql_select_session :: "string \<Rightarrow> tables \<Rightarrow> (sessions_row \<times> users_row) option" where
  "sql_select_session tok t =
     (case [(s, u). s \<leftarrow> sessions t, u \<leftarrow> users t,
                     s_user_id s = u_id u, token s = tok, is_active u = 1] of
        [] \<Rightarrow> None
      | row # rest \<Rightarrow> Some row)"

record validate_env =
  v_now :: int
  v_select :: stmt_faults
  v_activity :: activity_env

text \<open>
  \<open>session_validate\<close>: the token may be NULL (\<open>None\<close>). The result is the return value
  (1 valid, 0 invalid), the request with its user context, and the connection.
\<close>

definition session_validate ::
  "validate_env \<Rightarrow> string option \<Rightarrow> http_request_t \<Rightarrow> db \<Rightarrow> int \<times> http_request_t \<times> db" where
  "session_validate env tok_opt req d =
     (case tok_opt of
        None \<Rightarrow> (0, req, d)
      | Some tok \<Rightarrow>
          if prepare_fails (v_select env) then (0, req, d)
          else
            (case (if step_fails (v_select env) then None
                   else sql_select_session tok (live d)) of
               None \<Rightarrow> (0, req, d)
             | Some (s, u) \<Rightarrow>
                 let now = v_now env
                 in if now > expires_at s then (0, req, d)
                    else if now - last_activity_at s > SESSION_INACTIVITY_SECONDS
                    then (0, req, d)
                    else
                      let req' = req\<lparr>user_id := s_user_id s, account_id := u_account_id u,
                                      user_email := safe_strncpy (user_email req) (email u) 256,
                                      user_role := safe_strncpy (user_role req) (role u) 16,
                                      is_authenticated := 1\<rparr>;
                          (updated, d') = session_update_activity (v_activity env) tok d
                      in (1, req', d')))"

text \<open>
  \<open>session_cleanup_expired\<close>: the DELETE removes the sessions with
  \<open>expires_at < now\<close> or \<open>last_activity_at < now - 86400\<close>; the result is the number of
  rows deleted, or -1.
\<close>

record cleanup_env =
  cl_now :: int
  cl_delete :: stmt_faults

definition session_cleanup_expired :: "cleanup_env \<Rightarrow> db \<Rightarrow> int \<times> db" where
  "session_cleanup_expired env d =
     (let now = cl_now env
      in if prepare_fails (cl_delete env) then (- 1, d)
         else
           let inactivity_cutoff = now - SESSION_INACTIVITY_SECONDS
           in if step_fails (cl_delete env) then (- 1, d)
              else
                let kept = filter (\<lambda>s. \<not> (expires_at s < now
                                           \<or> last_activity_at s < inactivity_cutoff))
                             (sessions (live d))
                in (int (length (sessions (live d))) - int (length kept),
                    d\<lparr>live := (live d)\<lparr>sessions := kept\<rparr>\<rparr>))"

section \<open>Routing (src/core/router.c)\<close>

text \<open>
  A route's handler is a function pointer; the model names the handlers and the router
  returns either the response it builds itself or the handler it calls.
\<close>

datatype route_handler_t =
  handle_home_page | handle_login_page | handle_login_submit | handle_logout
  | handle_dashboard | handle_billing_page | handle_reports_page | handle_reports_generate
  | handle_reports_export_csv | handle_admin_billing_page | handle_admin_mark_paid
  | handle_admin_search_accounts

record route_t =
  route_method :: http_method_t
  route_path :: string
  handler :: route_handler_t
  requires_auth :: int
  requires_admin :: int

datatype route_outcome = Responded http_response_t | Dispatched route_handler_t

definition MAX_ROUTES :: nat where
  "MAX_ROUTES = 100"

definition router_init :: "route_t list" where
  "router_init = []"

definition router_add_route ::
  "route_t list \<Rightarrow> http_method_t \<Rightarrow> string \<Rightarrow> route_handler_t \<Rightarrow> int \<Rightarrow> int \<Rightarrow> route_t list" where
  "router_add_route routes m p h ra rad =
     (if length routes \<ge> MAX_ROUTES then routes
      else routes @ [\<lparr>route_method = m, route_path = p, handler = h,
                       requires_auth = ra, requires_admin = rad\<rparr>])"

fun router_handle_request :: "route_t list \<Rightarrow> http_request_t \<Rightarrow> route_outcome" where
  "router_handle_request [] req =
     Responded (response_set_body
       (response_set_content_type (response_set_status response_new 404) ''text/html'')
       ''<h1>404 Not Found</h1><p>The requested page does not exist.</p>'')"
| "router_handle_request (r # rs) req =
     (if route_method r = req_method req \<and> route_path r = req_path req then
        (if requires_auth r \<noteq> 0 \<and> is_authenticated req = 0 then
           Responded (response_redirect response_new ''/login'' 0)
         else if requires_admin r \<noteq> 0 \<and> user_role req \<noteq> ''admin'' then
           Responded (response_set_body
             (response_set_content_type (response_set_status response_new 403) ''text/html'')
             ''<h1>403 Forbidden</h1><p>Admin access required</p>'')
         else Dispatched (handler r))
      else router_handle_request rs req)"

definition routes_register_all :: "route_t list \<Rightarrow> route_t list" where
  "routes_register_all routes0 =
     (let r1 = router_add_route routes0 HTTP_GET ''/'' handle_home_page 0 0;
          r2 = router_add_route r1 HTTP_GET ''/login'' handle_login_page 0 0;
          r3 = router_add_route r2 HTTP_POST ''/login'' handle_login_submit 0 0;
          r4 = router_add_route r3 HTTP_GET ''/logout'' handle_logout 0 0;
          r5 = router_add_route r4 HTTP_GET ''/dashboard'' handle_dashboard 1 0;
          r6 = router_add_route r5 HTTP_GET ''/billing'' handle_billing_page 1 0;
          r7 = router_add_route r6 HTTP_GET ''/reports'' handle_reports_page 1 0;
          r8 = router_add_route r7 HTTP_POST ''/reports/generate'' handle_reports_generate 1 0;
          r9 = router_add_route r8 HTTP_GET ''/reports/export'' handle_reports_export_csv 1 0;
          r10 = router_add_route r9 HTTP_GET ''/admin/billing'' handle_admin_billing_page 1 1;
          r11 = router_add_route r10 HTTP_POST ''/admin/billing/mark-paid''
                  handle_admin_mark_paid 1 1;
          r12 = router_add_route r11 HTTP_POST ''/admin/search'' handle_admin_search_accounts 1 1
      in r12)"

text \<open>The route table of the running server: \<open>router_init\<close>, then \<open>routes_register_all\<close>.\<close>

definition registered_routes :: "route_t list" where
  "registered_routes = routes_register_all router_init"

section \<open>The request pipeline (server.c, in src/unnamed/part_006)\<close>

datatype ratelimit_result_t = RATELIMIT_OK | RATELIMIT_EXCEEDED | RATELIMIT_ERROR

record server_env =
  rate_result :: ratelimit_result_t
  sv_validate :: validate_env

definition send_error_response :: "int \<Rightarrow> string \<Rightarrow> http_response_t" where
  "send_error_response code message =
     response_set_body
       (response_set_content_type (response_set_status response_new code) ''text/html'')
       (''<html><head><title>'' @ string_of_nat (nat code) @ '' Error</title></head>''
        @ ''<body><h1>'' @ string_of_nat (nat code) @ '' Error</h1><p>'' @ message
        @ ''</p></body></html>'')"

text \<open>
  The cookie handed out at login: \<open>handle_login_submit\<close> calls
  \<open>response_set_cookie(resp, "session_token", session_token, ...)\<close>, and the browser sends
  it back as the pair below.
\<close>

definition login_cookie :: "string \<Rightarrow> string" where
  "login_cookie session_token = ''session_token'' @ ''='' @ session_token"

text \<open>
  \<open>server_handle_client\<close> after the socket read. \<open>request_parse\<close> is not modelled: its
  result is \<open>None\<close> when it fails, and otherwise the method, the path and the cookies it
  stores; every other field of the request is zero, as \<open>memset\<close> leaves it. The block
  that resolves the session is a definition of its own.
\<close>

definition server_validate_session ::
  "validate_env \<Rightarrow> http_request_t \<Rightarrow> db \<Rightarrow> http_request_t \<times> db" where
  "server_validate_session env req d =
     (case request_get_cookie req ''session'' of
        None \<Rightarrow> (req, d)
      | Some session_token \<Rightarrow>
          (let (valid, req', d') = session_validate env (Some session_token) req d
           in (req', d')))"

definition server_handle_client ::
  "server_env \<Rightarrow> route_t list \<Rightarrow> (http_method_t \<times> string \<times> string list) option \<Rightarrow> string
     \<Rightarrow> db \<Rightarrow> route_outcome \<times> db" where
  "server_handle_client env routes parsed ip d =
     (case parsed of
        None \<Rightarrow> (Responded (send_error_response 400 ''Bad Request''), d)
      | Some (m, p, cs) \<Rightarrow>
          let req = \<lparr>req_method = m, req_path = p, cookies = cs,
                     client_ip = safe_strncpy '''' ip 64,
                     user_id = 0, account_id = 0, user_email = '''', user_role = '''',
                     is_authenticated = 0\<rparr>
          in if rate_result env = RATELIMIT_EXCEEDED then
               (Responded (send_error_response 429 ''Too Many Requests''), d)
             else
               let (req', d') = server_validate_session (sv_validate env) req d
               in (router_handle_request routes req', d'))"

section \<open>Histories of billing operations\<close>

text \<open>
  The calls that mutate subscriptions and the ledger, each with the environment it
  runs in; a history is a list of calls, run from left to right, whatever they return.
\<close>

datatype billing_op =
  Create create_env int plan_t
  | Update update_env int plan_t subscription_status_t int int "string option"
  | MarkPaid paid_env int plan_t int int "string option" "string option" int "string option"

fun apply_op :: "billing_op \<Rightarrow> db \<Rightarrow> db" where
  "apply_op (Create env acct p) d = snd (subscription_create env acct p d)"
| "apply_op (Update env acct p s vu admin notes) d =
     snd (subscription_update env acct p s vu admin notes d)"
| "apply_op (MarkPaid env acct p days amount pm ref admin notes) d =
     snd (billing_mark_as_paid env acct p days amount pm ref admin notes d)"

definition run :: "billing_op list \<Rightarrow> db \<Rightarrow> db" where
  "run ops d = fold apply_op ops d"

section \<open>Definitions for the statements\<close>

text \<open>
  The free tier, in the words of the specification: the features that the plan table of
  \<open>entitlement_has_feature\<close> gives the free plan.
\<close>

definition free_tier_feature :: "feature_t \<Rightarrow> bool" where
  "free_tier_feature feature = (feature = FEATURE_BASIC_REPORTS)"

text \<open>The row that the SELECT of \<open>session_validate\<close> yields, faults included.\<close>

definition session_lookup :: "validate_env \<Rightarrow> string \<Rightarrow> db \<Rightarrow> (sessions_row \<times> users_row) option" where
  "session_lookup env tok d =
     (if prepare_fails (v_select env) \<or> step_fails (v_select env) then None
      else sql_select_session tok (live d))"

text \<open>
  A cookie \<open>name=value\<close> of the given name, by the test of \<open>request_get_cookie\<close>.
\<close>

definition cookie_named :: "string \<Rightarrow> string \<Rightarrow> bool" where
  "cookie_named name c \<longleftrightarrow>
     take (length name) c = name \<and> length name < length c \<and> c ! length name = CHR ''=''"

text \<open>The response the router builds when it denies admin access.\<close>

definition forbidden_response :: http_response_t where
  "forbidden_response =
     response_set_body
       (response_set_content_type (response_set_status response_new 403) ''text/html'')
       ''<h1>403 Forbidden</h1><p>Admin access required</p>''"

text \<open>
  Replay, in the words of the specification: starting from no subscription, apply each
  event's recorded transition in occurrence order. An event records the plan and the
  status it leads to, so the replayed state is the plan and status of the last event.
\<close>

definition replay :: "billing_events_row list \<Rightarrow> (string option \<times> string option) option" where
  "replay evs = fold (\<lambda>e st. Some (new_plan e, new_status e)) evs None"

definition events_of :: "int \<Rightarrow> db \<Rightarrow> billing_events_row list" where
  "events_of acct d = filter (\<lambda>e. ev_account_id e = acct) (billing_events (live d))"

definition subscription_row_of :: "int \<Rightarrow> db \<Rightarrow> subscriptions_row option" where
  "subscription_row_of acct d = find (\<lambda>r. c_account_id r = acct) (subscriptions (live d))"

text \<open>
  Two invariants of the histories. The first: no transaction is open and every
  subscription row has grace_until 0. The second: no transaction is open and, for every
  account, replaying its ledger gives the plan and status of its subscription row, or
  nothing when it has no row.
\<close>

definition grace_zero :: "db \<Rightarrow> bool" where
  "grace_zero d \<longleftrightarrow>
     txn d = None \<and> list_all (\<lambda>r. c_grace_until r = Some 0) (subscriptions (live d))"

definition ledger_matches :: "db \<Rightarrow> bool" where
  "ledger_matches d \<longleftrightarrow>
     txn d = None
     \<and> (\<forall>a. replay (events_of a d)
            = map_option (\<lambda>r. (Some (c_plan r), Some (c_status r))) (subscription_row_of a d))"

section \<open>Sample environments, stores and requests\<close>

text \<open>Environments without faults, for the concrete instances below.\<close>

definition update_ok :: "int \<Rightarrow> update_env" where
  "update_ok now = \<lparr>u_now = now, u_get = no_faults, u_upsert = no_faults, u_event = no_faults\<rparr>"

definition log_ok :: "int \<Rightarrow> log_env" where
  "log_ok now = \<lparr>l_now = now, l_insert = no_faults\<rparr>"

definition paid_ok :: "int \<Rightarrow> paid_env" where
  "paid_ok now = \<lparr>p_now = now, p_update = update_ok now, p_log = log_ok now\<rparr>"

definition create_ok :: "int \<Rightarrow> create_env" where
  "create_ok now = \<lparr>c_now = now, c_update = update_ok now\<rparr>"

definition entitlement_ok :: "int \<Rightarrow> entitlement_env" where
  "entitlement_ok now = \<lparr>e_now = now, e_get = no_faults\<rparr>"

definition validate_ok :: "int \<Rightarrow> validate_env" where
  "validate_ok now = \<lparr>v_now = now, v_select = no_faults,
                       v_activity = \<lparr>a_now = now, a_update = no_faults\<rparr>\<rparr>"

definition server_ok :: "int \<Rightarrow> server_env" where
  "server_ok now = \<lparr>rate_result = RATELIMIT_OK, sv_validate = validate_ok now\<rparr>"

text \<open>An environment in which the UPDATE of \<open>session_update_activity\<close> reports an error.\<close>

definition validate_activity_fails :: "int \<Rightarrow> validate_env" where
  "validate_activity_fails now =
     \<lparr>v_now = now, v_select = no_faults,
      v_activity = \<lparr>a_now = now, a_update = \<lparr>prepare_fails = False, step_fails = True\<rparr>\<rparr>\<rparr>"

text \<open>
  The empty store; the store in which account 42 has been given the free plan at time
  1000; and a history that creates the subscription of account 42 and then cancels it.
\<close>

definition empty_db :: db where
  "empty_db = \<lparr>live = \<lparr>subscriptions = [], billing_events = [], sessions = [], users = []\<rparr>,
               txn = None\<rparr>"

definition free_db :: db where
  "free_db = snd (subscription_create (create_ok 1000) 42 PLAN_FREE empty_db)"

definition cancelled_history :: "billing_op list" where
  "cancelled_history =
     [Create (create_ok 1000) 42 PLAN_FREE,
      Update (update_ok 2000) 42 PLAN_PRO STATUS_CANCELLED 3000 7 None]"

text \<open>
  A subscription row in status grace_period whose validity window ended at 100 and whose
  grace runs until 200, the store that holds it, and the subscription read from it.
\<close>

definition grace_period_row :: subscriptions_row where
  "grace_period_row =
     \<lparr>c_id = 1, c_account_id = 1, c_plan = ''pro'', c_status = ''grace_period'',
      c_valid_from = 0, c_valid_until = 100, c_grace_until = Some 200,
      c_provider = ''manual'', c_external_id = '''', c_notes = '''',
      c_created_at = 0, c_updated_at = 0\<rparr>"

definition grace_period_db :: db where
  "grace_period_db =
     \<lparr>live = \<lparr>subscriptions = [grace_period_row], billing_events = [], sessions = [],
               users = []\<rparr>,
      txn = None\<rparr>"

definition grace_period_sub :: subscription_t where
  "grace_period_sub =
     \<lparr>sub_id = 1, sub_account_id = 1, plan = PLAN_PRO, status = STATUS_GRACE_PERIOD,
      valid_from = 0, valid_until = 100, grace_until = 200,
      provider = ''manual'', external_id = '''', sub_notes = '''',
      sub_created_at = 0, sub_updated_at = 0\<rparr>"

text \<open>
  A store with one active user (id 7, account 42, role user) who holds two sessions:
  \<open>abc\<close>, created at 1000, expiring at 605800 (seven days later), last active at 600000,
  and \<open>def\<close>, created at 2000, expiring at 606800, last active at 519000.
\<close>

definition session_db :: db where
  "session_db =
     \<lparr>live = \<lparr>subscriptions = [], billing_events = [],
               sessions = [\<lparr>s_id = 1, s_user_id = 7, token = ''abc'', created_at = 1000,
                             expires_at = 605800, last_activity_at = 600000,
                             ip_address = ''127.0.0.1'', user_agent = ''curl''\<rparr>,
                           \<lparr>s_id = 2, s_user_id = 7, token = ''def'', created_at = 2000,
                             expires_at = 606800, last_activity_at = 519000,
                             ip_address = ''127.0.0.1'', user_agent = ''curl''\<rparr>],
               users = [\<lparr>u_id = 7, u_account_id = 42, email = ''a@example.com'',
                          role = ''user'', is_active = 1\<rparr>]\<rparr>,
      txn = None\<rparr>"

text \<open>
  A request as \<open>request_parse\<close> leaves it, without user context; the same request with
  the context of user 7; and the route of the admin billing page.
\<close>

definition anonymous_request :: "http_method_t \<Rightarrow> string \<Rightarrow> string list \<Rightarrow> http_request_t" where
  "anonymous_request m p cs =
     \<lparr>req_method = m, req_path = p, cookies = cs, client_ip = ''127.0.0.1'', user_id = 0,
      account_id = 0, user_email = '''', user_role = '''', is_authenticated = 0\<rparr>"

definition user_request :: "http_method_t \<Rightarrow> string \<Rightarrow> http_request_t" where
  "user_request m p =
     \<lparr>req_method = m, req_path = p, cookies = [], client_ip = ''127.0.0.1'', user_id = 7,
      account_id = 42, user_email = ''a@example.com'', user_role = ''user'',
      is_authenticated = 1\<rparr>"

definition admin_billing_route :: route_t where
  "admin_billing_route =
     \<lparr>route_method = HTTP_GET, route_path = ''/admin/billing'',
      handler = handle_admin_billing_page, requires_auth = 1, requires_admin = 1\<rparr>"

section \<open>Properties\<close>

lemma plan_string_roundtrip:
  "subscription_string_to_plan (subscription_plan_to_string p) = p"
  by (cases p) (simp_all add: subscription_plan_to_string_def subscription_string_to_plan_def)

lemma status_string_roundtrip:
  "subscription_string_to_status (subscription_status_to_string s) = s"
  by (cases s) (simp_all add: subscription_status_to_string_def subscription_string_to_status_def)

lemma subscription_is_valid_cases:
  "subscription_is_valid now sub = 1 \<longleftrightarrow>
     ((status sub = STATUS_ACTIVE \<or> status sub = STATUS_GRACE_PERIOD)
        \<and> valid_from sub \<le> now \<and> now \<le> valid_until sub)
     \<or> ((status sub = STATUS_EXPIRED \<or> status sub = STATUS_CANCELLED)
        \<and> grace_until sub > 0 \<and> now \<le> grace_until sub)"
  by (cases "status sub") (auto simp: subscription_is_valid_def)

text \<open>
  Claim C3. The validity check is stated to hold exactly when the status is active and
  \<open>valid_from \<le> now \<le> valid_until\<close>, or the status is grace_period, expired or cancelled
  and \<open>grace_until\<close> is set with \<open>now \<le> grace_until\<close>. The code consults \<open>grace_until\<close>
  for expired and cancelled only: the subscription read from a row in status grace_period,
  whose validity window ended at 100 and whose grace runs until 200, is reported invalid
  at time 150 and has no entitlement, although its grace has not run out; the schema's own
  view \<open>v_active_subscriptions\<close> marks the same row valid at that time. In the other
  direction, the same subscription without a grace date is reported valid at time 50,
  inside its validity window, where the claim and the view make it invalid.
\<close>

theorem C3_grace_period_status_ignores_grace_until:
  "subscription_get_by_account no_faults 1 grace_period_db = Some grace_period_sub
   \<and> status grace_period_sub = STATUS_GRACE_PERIOD
   \<and> 0 < grace_until grace_period_sub \<and> 150 \<le> grace_until grace_period_sub
   \<and> subscription_is_valid 150 grace_period_sub = 0
   \<and> entitlement_has_feature (entitlement_ok 150) 1 FEATURE_BASIC_REPORTS grace_period_db = 0
   \<and> v_active_subscriptions_is_valid 150 grace_period_row = 1
   \<and> subscription_is_valid 50 (grace_period_sub\<lparr>grace_until := 0\<rparr>) = 1
   \<and> v_active_subscriptions_is_valid 50 (grace_period_row\<lparr>c_grace_until := Some 0\<rparr>) = 0"
  by (simp add: subscription_get_by_account_def grace_period_db_def grace_period_row_def
      grace_period_sub_def no_faults_def subscription_string_to_plan_def
      subscription_string_to_status_def safe_strncpy_def subscription_is_valid_def
      entitlement_has_feature_def entitlement_ok_def v_active_subscriptions_is_valid_def)

subsection \<open>subscription_update\<close>

lemma find_map_if:
  assumes "\<And>r. P r \<Longrightarrow> P (f r)"
  shows "find P (map (\<lambda>r. if P r then f r else r) rows) = map_option f (find P rows)"
  using assms by (induction rows) auto

lemma find_map_other:
  assumes "\<And>r. Q (g r) = Q r" and "\<And>r. Q r \<Longrightarrow> g r = r"
  shows "find Q (map g rows) = find Q rows"
  using assms by (induction rows) auto

lemma find_append_new:
  "\<not> list_ex P rows \<Longrightarrow> P x \<Longrightarrow> find P (rows @ [x]) = Some x"
  by (induction rows) auto

lemma find_append_other:
  "\<not> Q x \<Longrightarrow> find Q (rows @ [x]) = find Q rows"
  by (induction rows) auto

lemma row_of_update:
  "sql_update_subscription ps ss vu n upd acct rows = Some rows' \<Longrightarrow>
   find (\<lambda>r. c_account_id r = acct) rows = Some r0 \<Longrightarrow>
   \<exists>r. find (\<lambda>r. c_account_id r = acct) rows' = Some r \<and> c_plan r = ps \<and> c_status r = ss
       \<and> c_valid_until r = vu"
  by (auto simp: sql_update_subscription_def find_map_if)

lemma row_of_insert:
  "sql_insert_subscription ps ss vf vu n cr upd acct rows = Some rows' \<Longrightarrow>
   \<exists>r. find (\<lambda>r. c_account_id r = acct) rows' = Some r \<and> c_plan r = ps \<and> c_status r = ss
       \<and> c_valid_until r = vu"
  by (auto simp: sql_insert_subscription_def find_append_new split: if_splits)

lemma others_of_update:
  "sql_update_subscription ps ss vu n upd acct rows = Some rows' \<Longrightarrow> a \<noteq> acct \<Longrightarrow>
   find (\<lambda>r. c_account_id r = a) rows' = find (\<lambda>r. c_account_id r = a) rows"
  by (auto simp: sql_update_subscription_def intro!: find_map_other)

lemma others_of_insert:
  "sql_insert_subscription ps ss vf vu n cr upd acct rows = Some rows' \<Longrightarrow> a \<noteq> acct \<Longrightarrow>
   find (\<lambda>r. c_account_id r = a) rows' = find (\<lambda>r. c_account_id r = a) rows"
  by (auto simp: sql_insert_subscription_def find_append_other split: if_splits)

lemma grace_of_update:
  "sql_update_subscription ps ss vu n upd acct rows = Some rows' \<Longrightarrow>
   list_all (\<lambda>r. c_grace_until r = Some 0) rows \<Longrightarrow>
   list_all (\<lambda>r. c_grace_until r = Some 0) rows'"
  by (auto simp: sql_update_subscription_def list_all_iff)

lemma grace_of_insert:
  "sql_insert_subscription ps ss vf vu n cr upd acct rows = Some rows' \<Longrightarrow>
   list_all (\<lambda>r. c_grace_until r = Some 0) rows \<Longrightarrow>
   list_all (\<lambda>r. c_grace_until r = Some 0) rows'"
  by (auto simp: sql_insert_subscription_def list_all_iff split: if_splits)

lemma sql_update_subscription_keeps_grace_until:
  "sql_update_subscription ps ss vu n upd acct rows = Some rows' \<Longrightarrow>
   map c_grace_until rows' = map c_grace_until rows \<and> map c_valid_from rows' = map c_valid_from rows"
  by (auto simp: sql_update_subscription_def)

lemma sql_insert_subscription_grace_until:
  "sql_insert_subscription ps ss vf vu n cr upd acct rows = Some rows' \<Longrightarrow>
   \<exists>r. rows' = rows @ [r] \<and> c_account_id r = acct \<and> c_grace_until r = Some 0"
  by (auto simp: sql_insert_subscription_def split: if_splits)

lemma get_Some_find:
  "subscription_get_by_account q acct d \<noteq> None \<Longrightarrow>
     \<exists>r. find (\<lambda>r. c_account_id r = acct) (subscriptions (live d)) = Some r"
  by (auto simp: subscription_get_by_account_def split: if_splits option.splits)

lemmas update_defs =
  subscription_update_def Let_def db_begin_transaction_def
  db_rollback_transaction_def db_commit_transaction_def sql_insert_billing_event_def

lemma subscription_update_success:
  assumes "txn d = None"
    and "subscription_update env acct p s vu admin notes d = (0, d')"
  shows "\<exists>e r.
           billing_events (live d') = billing_events (live d) @ [e]
           \<and> sessions (live d') = sessions (live d) \<and> users (live d') = users (live d)
           \<and> txn d' = None
           \<and> ev_account_id e = acct \<and> event_type e = ''subscription_update''
           \<and> amount_cents e = None
           \<and> new_plan e = Some (subscription_plan_to_string p)
           \<and> new_status e = Some (subscription_status_to_string s)
           \<and> subscription_row_of acct d' = Some r
           \<and> c_plan r = subscription_plan_to_string p
           \<and> c_status r = subscription_status_to_string s
           \<and> c_valid_until r = vu"
proof (cases "subscription_get_by_account (u_get env) acct d")
  case None
  with assms show ?thesis
    by (auto simp: update_defs subscription_row_of_def
        split: option.splits if_splits dest!: row_of_insert)
next
  case (Some c)
  then obtain r0 where "find (\<lambda>r. c_account_id r = acct) (subscriptions (live d)) = Some r0"
    using get_Some_find[of "u_get env" acct d] by auto
  with Some assms show ?thesis
    by (auto simp: update_defs subscription_row_of_def
        split: option.splits if_splits dest!: row_of_update)
qed

lemma subscription_update_others:
  assumes "txn d = None" and "a \<noteq> acct"
  shows "subscription_row_of a (snd (subscription_update env acct p s vu admin notes d))
           = subscription_row_of a d"
  using assms
  by (auto simp: update_defs subscription_row_of_def
      split: option.splits if_splits dest: others_of_update others_of_insert)

lemma subscription_update_grace:
  assumes "txn d = None"
    and "list_all (\<lambda>r. c_grace_until r = Some 0) (subscriptions (live d))"
  shows "list_all (\<lambda>r. c_grace_until r = Some 0)
           (subscriptions (live (snd (subscription_update env acct p s vu admin notes d))))"
  using assms
  by (auto simp: update_defs
      split: option.splits if_splits dest: grace_of_update grace_of_insert)

lemma subscription_update_txn:
  "txn d = None \<Longrightarrow> txn (snd (subscription_update env acct p s vu admin notes d)) = None"
  by (auto simp: update_defs split: option.splits)

lemma subscription_update_rc:
  "fst (subscription_update env acct p s vu admin notes d) = 0 \<or>
   fst (subscription_update env acct p s vu admin notes d) = - 1"
  by (auto simp: update_defs split: option.splits)

lemma subscription_update_failure:
  "txn d = None \<Longrightarrow> fst (subscription_update env acct p s vu admin notes d) \<noteq> 0 \<Longrightarrow>
   live (snd (subscription_update env acct p s vu admin notes d)) = live d"
  by (auto simp: update_defs split: option.splits if_splits)

lemma subscription_update_faults:
  "prepare_fails (u_upsert env) \<or> step_fails (u_upsert env)
     \<or> prepare_fails (u_event env) \<or> step_fails (u_event env) \<Longrightarrow>
   fst (subscription_update env acct p s vu admin notes d) = - 1"
  by (auto simp: update_defs split: option.splits if_splits)

text \<open>
  Claim C1. A call of \<open>subscription_update\<close> that starts outside a transaction ends
  outside one and returns 0 or -1. When it returns 0, exactly one row has been appended to
  billing_events, for the account, and its new_plan and new_status are the plan and
  status of the account's subscription row after the call, which are the ones asked for.
  When it does not return 0, every table is as it was before the call: no subscription
  change and no ledger row. A fault of the upsert or of the ledger insert makes it
  return -1.
\<close>

theorem C1_subscription_update_atomic:
  assumes "txn d = None"
    and "subscription_update env acct p s vu admin notes d = (rc, d')"
  shows "txn d' = None \<and> (rc = 0 \<or> rc = - 1)
     \<and> (rc = 0 \<longrightarrow>
          (\<exists>e r. billing_events (live d') = billing_events (live d) @ [e]
             \<and> ev_account_id e = acct
             \<and> subscription_row_of acct d' = Some r
             \<and> c_plan r = subscription_plan_to_string p
             \<and> c_status r = subscription_status_to_string s
             \<and> new_plan e = Some (c_plan r) \<and> new_status e = Some (c_status r)))
     \<and> (rc \<noteq> 0 \<longrightarrow> live d' = live d)
     \<and> (prepare_fails (u_upsert env) \<or> step_fails (u_upsert env)
          \<or> prepare_fails (u_event env) \<or> step_fails (u_event env) \<longrightarrow> rc = - 1)"
proof -
  have rc: "rc = fst (subscription_update env acct p s vu admin notes d)"
    and d': "d' = snd (subscription_update env acct p s vu admin notes d)"
    using assms(2) by simp_all
  have "txn d' = None"
    unfolding d' using assms(1) by (rule subscription_update_txn)
  moreover have "rc = 0 \<or> rc = - 1"
    unfolding rc by (rule subscription_update_rc)
  moreover have "rc \<noteq> 0 \<longrightarrow> live d' = live d"
    unfolding rc d' using assms(1) by (simp add: subscription_update_failure)
  moreover have "prepare_fails (u_upsert env) \<or> step_fails (u_upsert env)
          \<or> prepare_fails (u_event env) \<or> step_fails (u_event env) \<longrightarrow> rc = - 1"
    unfolding rc using subscription_update_faults[of env] by blast
  moreover have "rc = 0 \<longrightarrow>
          (\<exists>e r. billing_events (live d') = billing_events (live d) @ [e]
             \<and> ev_account_id e = acct
             \<and> subscription_row_of acct d' = Some r
             \<and> c_plan r = subscription_plan_to_string p
             \<and> c_status r = subscription_status_to_string s
             \<and> new_plan e = Some (c_plan r) \<and> new_status e = Some (c_status r))"
  proof
    assume "rc = 0"
    with assms(2) have "subscription_update env acct p s vu admin notes d = (0, d')" by simp
    from subscription_update_success[OF assms(1) this] show
      "\<exists>e r. billing_events (live d') = billing_events (live d) @ [e]
             \<and> ev_account_id e = acct
             \<and> subscription_row_of acct d' = Some r
             \<and> c_plan r = subscription_plan_to_string p
             \<and> c_status r = subscription_status_to_string s
             \<and> new_plan e = Some (c_plan r) \<and> new_status e = Some (c_status r)"
      by auto
  qed
  ultimately show ?thesis by blast
qed

lemmas sample_defs = update_ok_def log_ok_def paid_ok_def create_ok_def empty_db_def no_faults_def

lemmas eval_defs =
  subscription_get_by_account_def sql_update_subscription_def sql_insert_subscription_def
  next_rowid_def safe_strncpy_def subscription_plan_to_string_def
  subscription_status_to_string_def subscription_string_to_plan_def
  subscription_string_to_status_def subscription_row_of_def events_of_def

text \<open>Claim C1 at a first update of account 1 on the empty store.\<close>

theorem C1_witness:
  "txn empty_db = None
   \<and> fst (subscription_update (update_ok 1000) 1 PLAN_PRO STATUS_ACTIVE 2000 7 None empty_db) = 0
   \<and> (\<exists>e r. billing_events (live (snd (subscription_update (update_ok 1000) 1 PLAN_PRO
                  STATUS_ACTIVE 2000 7 None empty_db)))
               = billing_events (live empty_db) @ [e]
          \<and> ev_account_id e = 1
          \<and> subscription_row_of 1 (snd (subscription_update (update_ok 1000) 1 PLAN_PRO
                  STATUS_ACTIVE 2000 7 None empty_db)) = Some r
          \<and> c_plan r = ''pro'' \<and> c_status r = ''active''
          \<and> new_plan e = Some (c_plan r) \<and> new_status e = Some (c_status r))"
proof -
  have h: "txn empty_db = None"
    by (simp add: empty_db_def)
  have ok: "fst (subscription_update (update_ok 1000) 1 PLAN_PRO STATUS_ACTIVE 2000 7 None
              empty_db) = 0"
    by (simp add: update_defs sample_defs eval_defs)
  from C1_subscription_update_atomic
         [of empty_db "update_ok 1000" 1 PLAN_PRO STATUS_ACTIVE 2000 7 None,
          OF h surjective_pairing] ok h
  show ?thesis
    by (simp add: subscription_plan_to_string_def subscription_status_to_string_def)
qed

subsection \<open>billing_mark_as_paid\<close>

lemma int32_id: "- 2147483648 \<le> x \<Longrightarrow> x < 2147483648 \<Longrightarrow> int32 x = x"
  by (simp add: int32_def signed_take_bit_int_eq_self)

lemma int32_days:
  assumes "- 24855 \<le> days" and "days \<le> 24855"
  shows "int32 (int32 (int32 (days * 24) * 60) * 60) = days * 86400"
proof -
  have "int32 (days * 24) = days * 24"
    using assms by (intro int32_id) simp_all
  moreover have "int32 (days * 24 * 60) = days * 24 * 60"
    using assms by (intro int32_id) simp_all
  moreover have "int32 (days * 24 * 60 * 60) = days * 24 * 60 * 60"
    using assms by (intro int32_id) simp_all
  ultimately show ?thesis by simp
qed

lemma billing_log_event_frame:
  "txn (snd (billing_log_event env acct et pp np ps ns am cur pm er adm n d)) = txn d
   \<and> subscriptions (live (snd (billing_log_event env acct et pp np ps ns am cur pm er adm n d)))
       = subscriptions (live d)
   \<and> sessions (live (snd (billing_log_event env acct et pp np ps ns am cur pm er adm n d)))
       = sessions (live d)
   \<and> users (live (snd (billing_log_event env acct et pp np ps ns am cur pm er adm n d)))
       = users (live d)"
  by (simp add: billing_log_event_def Let_def)

lemma billing_log_event_events:
  "(\<exists>e. billing_events (live (snd (billing_log_event env acct et pp np ps ns am cur pm er adm n d)))
         = billing_events (live d) @ [e]
       \<and> \<not> prepare_fails (l_insert env) \<and> \<not> step_fails (l_insert env)
       \<and> ev_account_id e = acct \<and> event_type e = et
       \<and> new_plan e = Some (case np of None \<Rightarrow> '''' | Some x \<Rightarrow> x)
       \<and> new_status e = Some (case ns of None \<Rightarrow> '''' | Some x \<Rightarrow> x)
       \<and> amount_cents e = Some am)
   \<or> (billing_events (live (snd (billing_log_event env acct et pp np ps ns am cur pm er adm n d)))
         = billing_events (live d)
       \<and> (prepare_fails (l_insert env) \<or> step_fails (l_insert env)))"
  by (simp add: billing_log_event_def Let_def sql_insert_billing_event_def)

lemma billing_mark_as_paid_unfold:
  "billing_mark_as_paid env acct p days amount pm ref admin notes d =
     (if fst (subscription_update (p_update env) acct p STATUS_ACTIVE
               (p_now env + int32 (int32 (int32 (days * 24) * 60) * 60)) admin notes d) \<noteq> 0
      then (- 1, snd (subscription_update (p_update env) acct p STATUS_ACTIVE
               (p_now env + int32 (int32 (int32 (days * 24) * 60) * 60)) admin notes d))
      else (0, snd (billing_log_event (p_log env) acct ''payment_received''
                None (Some (subscription_plan_to_string p))
                None (Some (subscription_status_to_string STATUS_ACTIVE))
                amount (Some ''USD'') pm ref admin notes
                (snd (subscription_update (p_update env) acct p STATUS_ACTIVE
               (p_now env + int32 (int32 (int32 (days * 24) * 60) * 60)) admin notes d)))))"
  by (simp add: billing_mark_as_paid_def Let_def split: prod.splits)


text \<open>
  Claim C2, as stated, fails: account 42 holds a free subscription, and one successful
  \<open>billing_mark_as_paid\<close> for the pro plan with 4900 cents adds two rows to its ledger,
  the update's own row without an amount and a separate payment row.
\<close>

theorem C2_counterexample:
  "fst (billing_mark_as_paid (paid_ok 5000) 42 PLAN_PRO 30 4900 (Some ''manual'')
          (Some ''REF-1'') 7 None free_db) = 0
   \<and> length (events_of 42 (snd (billing_mark_as_paid (paid_ok 5000) 42 PLAN_PRO 30 4900
          (Some ''manual'') (Some ''REF-1'') 7 None free_db)))
       = length (events_of 42 free_db) + 2
   \<and> map (\<lambda>e. (event_type e, new_plan e, amount_cents e))
        (drop (length (events_of 42 free_db))
          (events_of 42 (snd (billing_mark_as_paid (paid_ok 5000) 42 PLAN_PRO 30 4900
             (Some ''manual'') (Some ''REF-1'') 7 None free_db))))
       = [(''subscription_update'', Some ''pro'', None),
          (''payment_received'', Some ''pro'', Some 4900)]"
  by (simp add: billing_mark_as_paid_def billing_log_event_def subscription_create_def
      free_db_def update_defs sample_defs eval_defs int32_def)

text \<open>
  Claim C2, amended. A successful \<open>billing_mark_as_paid\<close> that starts outside a
  transaction, for a duration whose seconds fit a C \<open>int\<close>, sets \<open>valid_until\<close> to
  \<open>now + duration_days * 86400\<close> and the status to active through
  \<open>subscription_update\<close>, whose ledger row comes first among the new rows and carries
  the new plan and no amount; when the payment insert succeeds, the amount is recorded in
  a second row of type payment_received that carries the new plan, status active and the
  amount in cents, and these two rows are all the new rows.
\<close>

theorem C2_mark_as_paid_two_entries:
  assumes "txn d = None"
    and "billing_mark_as_paid env acct p days amount pm ref admin notes d = (0, d')"
    and "- 24855 \<le> days" and "days \<le> 24855"
  shows "\<exists>e1 r rest.
           billing_events (live d') = billing_events (live d) @ e1 # rest
           \<and> ev_account_id e1 = acct \<and> event_type e1 = ''subscription_update''
           \<and> new_plan e1 = Some (subscription_plan_to_string p)
           \<and> new_status e1 = Some ''active'' \<and> amount_cents e1 = None
           \<and> subscription_row_of acct d' = Some r
           \<and> c_plan r = subscription_plan_to_string p \<and> c_status r = ''active''
           \<and> c_valid_until r = p_now env + days * 86400
           \<and> (\<not> prepare_fails (l_insert (p_log env)) \<and> \<not> step_fails (l_insert (p_log env))
                \<longrightarrow> (\<exists>e2. rest = [e2]
                       \<and> ev_account_id e2 = acct \<and> event_type e2 = ''payment_received''
                       \<and> new_plan e2 = Some (subscription_plan_to_string p)
                       \<and> new_status e2 = Some ''active''
                       \<and> amount_cents e2 = Some amount))"
proof -
  let ?vu = "p_now env + int32 (int32 (int32 (days * 24) * 60) * 60)"
  let ?u = "subscription_update (p_update env) acct p STATUS_ACTIVE ?vu admin notes d"
  let ?l = "billing_log_event (p_log env) acct ''payment_received''
              None (Some (subscription_plan_to_string p))
              None (Some (subscription_status_to_string STATUS_ACTIVE))
              amount (Some ''USD'') pm ref admin notes (snd ?u)"
  have vu: "?vu = p_now env + days * 86400"
    using assms(3,4) by (simp add: int32_days)
  have act: "subscription_status_to_string STATUS_ACTIVE = ''active''"
    by (simp add: subscription_status_to_string_def)
  have u0: "fst ?u = 0" and d': "d' = snd ?l"
    using assms(2) unfolding billing_mark_as_paid_unfold by (auto split: if_splits)
  then have "?u = (0, snd ?u)"
    by (metis prod.collapse)
  from subscription_update_success[OF assms(1) this]
  obtain e1 r where e1: "billing_events (live (snd ?u)) = billing_events (live d) @ [e1]"
    "ev_account_id e1 = acct" "event_type e1 = ''subscription_update''"
    "amount_cents e1 = None" "new_plan e1 = Some (subscription_plan_to_string p)"
    "new_status e1 = Some ''active''"
    and r: "subscription_row_of acct (snd ?u) = Some r"
    "c_plan r = subscription_plan_to_string p"
    "c_status r = ''active''" "c_valid_until r = p_now env + days * 86400"
    unfolding vu act by blast
  have row: "subscription_row_of acct d' = subscription_row_of acct (snd ?u)"
    unfolding d'
    using billing_log_event_frame[of "p_log env" acct "''payment_received''" None
      "Some (subscription_plan_to_string p)" None
      "Some (subscription_status_to_string STATUS_ACTIVE)" amount "Some ''USD''" pm ref admin
      "notes" "snd ?u"]
    by (simp add: subscription_row_of_def)
  from billing_log_event_events[of "p_log env" acct "''payment_received''" None
      "Some (subscription_plan_to_string p)" None
      "Some (subscription_status_to_string STATUS_ACTIVE)" amount "Some ''USD''" pm ref admin
      "notes" "snd ?u"]
  consider (logged) e2 where
      "billing_events (live d') = billing_events (live (snd ?u)) @ [e2]"
      "ev_account_id e2 = acct" "event_type e2 = ''payment_received''"
      "new_plan e2 = Some (subscription_plan_to_string p)"
      "new_status e2 = Some ''active''" "amount_cents e2 = Some amount"
    | (lost) "billing_events (live d') = billing_events (live (snd ?u))"
        "prepare_fails (l_insert (p_log env)) \<or> step_fails (l_insert (p_log env))"
    unfolding d' act by auto
  then show ?thesis
  proof cases
    case logged
    then have "billing_events (live d') = billing_events (live d) @ e1 # [e2]"
      using e1(1) by simp
    with logged e1 r row show ?thesis
      by (intro exI[of _ e1] exI[of _ r] exI[of _ "[e2]"]) auto
  next
    case lost
    then have "billing_events (live d') = billing_events (live d) @ e1 # []"
      using e1(1) by simp
    with lost e1 r row show ?thesis
      by (intro exI[of _ e1] exI[of _ r] exI[of _ "[]"]) auto
  qed
qed

text \<open>Claim C2 (amended) at the payment of account 42.\<close>

theorem C2_witness:
  "txn free_db = None
   \<and> fst (billing_mark_as_paid (paid_ok 5000) 42 PLAN_PRO 30 4900 (Some ''manual'')
          (Some ''REF-1'') 7 None free_db) = 0
   \<and> (\<exists>e1 e2 r.
         billing_events (live (snd (billing_mark_as_paid (paid_ok 5000) 42 PLAN_PRO 30 4900
            (Some ''manual'') (Some ''REF-1'') 7 None free_db)))
           = billing_events (live free_db) @ [e1, e2]
         \<and> event_type e1 = ''subscription_update'' \<and> amount_cents e1 = None
         \<and> event_type e2 = ''payment_received'' \<and> new_plan e2 = Some ''pro''
         \<and> amount_cents e2 = Some 4900
         \<and> subscription_row_of 42 (snd (billing_mark_as_paid (paid_ok 5000) 42 PLAN_PRO 30
              4900 (Some ''manual'') (Some ''REF-1'') 7 None free_db)) = Some r
         \<and> c_plan r = ''pro'' \<and> c_status r = ''active''
         \<and> c_valid_until r = 5000 + 30 * 86400)"
proof -
  let ?m = "billing_mark_as_paid (paid_ok 5000) 42 PLAN_PRO 30 4900 (Some ''manual'')
              (Some ''REF-1'') 7 None free_db"
  have h1: "txn free_db = None"
    by (simp add: free_db_def subscription_create_def update_defs sample_defs eval_defs)
  have ok: "fst ?m = 0"
    by (simp add: billing_mark_as_paid_def billing_log_event_def subscription_create_def
        free_db_def update_defs sample_defs eval_defs int32_def)
  then have h2: "?m = (0, snd ?m)"
    by (metis prod.collapse)
  have h3: "\<not> prepare_fails (l_insert (p_log (paid_ok 5000)))"
    and h4: "\<not> step_fails (l_insert (p_log (paid_ok 5000)))"
    by (simp_all add: sample_defs)
  from C2_mark_as_paid_two_entries [OF h1 h2] h3 h4
  obtain e1 r e2 where
    "billing_events (live (snd ?m)) = billing_events (live free_db) @ [e1, e2]"
    "event_type e1 = ''subscription_update''" "amount_cents e1 = None"
    "event_type e2 = ''payment_received''"
    "new_plan e2 = Some (subscription_plan_to_string PLAN_PRO)"
    "amount_cents e2 = Some 4900"
    "subscription_row_of 42 (snd ?m) = Some r"
    "c_plan r = subscription_plan_to_string PLAN_PRO" "c_status r = ''active''"
    "c_valid_until r = p_now (paid_ok 5000) + 30 * 86400"
    by auto
  with h1 ok show ?thesis
    by (simp add: subscription_plan_to_string_def sample_defs)
qed

subsection \<open>entitlement_has_feature\<close>

lemma free_tier_feature_is_free_plan:
  assumes "subscription_get_by_account (e_get env) acct d = Some sub"
    and "subscription_is_valid (e_now env) sub \<noteq> 0" and "plan sub = PLAN_FREE"
  shows "entitlement_has_feature env acct feature d = (if free_tier_feature feature then 1 else 0)"
  using assms by (simp add: entitlement_has_feature_def free_tier_feature_def)

lemma row_None_get_None:
  "subscription_row_of acct d = None \<Longrightarrow> subscription_get_by_account q acct d = None"
  by (simp add: subscription_row_of_def subscription_get_by_account_def)

text \<open>
  Claim C4, as stated, fails: account 1 has no subscription row, basic reports is a
  free-tier feature, and the entitlement check denies it.
\<close>

theorem C4_counterexample:
  "subscription_row_of 1 empty_db = None
   \<and> free_tier_feature FEATURE_BASIC_REPORTS
   \<and> entitlement_has_feature (entitlement_ok 1000) 1 FEATURE_BASIC_REPORTS empty_db = 0"
  by (simp add: subscription_row_of_def empty_db_def free_tier_feature_def
      entitlement_has_feature_def subscription_get_by_account_def entitlement_ok_def
      no_faults_def)

text \<open>
  Claim C4, amended. When the account has no subscription row, or the row cannot be read,
  or the subscription read is not currently valid, \<open>entitlement_has_feature\<close> returns 0
  for every feature, the free-tier feature included.
\<close>

theorem C4_fails_closed_for_every_feature:
  assumes "subscription_row_of acct d = None
           \<or> subscription_get_by_account (e_get env) acct d = None
           \<or> (\<exists>sub. subscription_get_by_account (e_get env) acct d = Some sub
                   \<and> subscription_is_valid (e_now env) sub = 0)"
  shows "entitlement_has_feature env acct feature d = 0"
proof -
  from assms consider
      (absent) "subscription_get_by_account (e_get env) acct d = None"
    | (invalid) sub where "subscription_get_by_account (e_get env) acct d = Some sub"
        "subscription_is_valid (e_now env) sub = 0"
    using row_None_get_None[of acct d "e_get env"] by auto
  then show ?thesis
  proof cases
    case absent
    then show ?thesis
      by (simp add: entitlement_has_feature_def)
  next
    case invalid
    then show ?thesis
      by (simp add: entitlement_has_feature_def)
  qed
qed

text \<open>Claim C4 (amended) at account 1 of the empty store.\<close>

theorem C4_witness:
  "subscription_row_of 1 empty_db = None
   \<and> entitlement_has_feature (entitlement_ok 1000) 1 FEATURE_BASIC_REPORTS empty_db = 0
   \<and> entitlement_has_feature (entitlement_ok 1000) 1 FEATURE_CSV_EXPORT empty_db = 0"
proof -
  have h: "subscription_row_of 1 empty_db = None"
    by (simp add: subscription_row_of_def empty_db_def)
  from C4_fails_closed_for_every_feature [of 1 empty_db "entitlement_ok 1000", OF disjI1, OF h] h
  show ?thesis by simp
qed

subsection \<open>Histories\<close>

lemma run_Nil: "run [] d = d"
  by (simp add: run_def)

lemma run_Cons: "run (x # xs) d = run xs (apply_op x d)"
  by (simp add: run_def)

lemma grace_zero_update:
  "grace_zero d \<Longrightarrow> grace_zero (snd (subscription_update env acct p s vu admin notes d))"
  by (simp add: grace_zero_def subscription_update_txn subscription_update_grace)

lemma grace_zero_log:
  "grace_zero d \<Longrightarrow>
   grace_zero (snd (billing_log_event env acct et pp np ps ns am cur pm er adm n d))"
  by (simp add: grace_zero_def billing_log_event_frame)

lemma grace_zero_apply_op: "grace_zero d \<Longrightarrow> grace_zero (apply_op x d)"
  by (cases x)
     (simp_all add: subscription_create_def Let_def billing_mark_as_paid_unfold
        grace_zero_update grace_zero_log)

lemma grace_zero_run: "grace_zero d \<Longrightarrow> grace_zero (run ops d)"
  by (induction ops arbitrary: d) (simp_all add: run_Nil run_Cons grace_zero_apply_op)

lemma get_grace:
  assumes "list_all (\<lambda>r. c_grace_until r = Some 0) (subscriptions (live d))"
    and "subscription_get_by_account q acct d = Some sub"
  shows "grace_until sub = 0"
proof -
  from assms(2) obtain r where r: "find (\<lambda>r. c_account_id r = acct) (subscriptions (live d)) = Some r"
    and g: "grace_until sub = (case c_grace_until r of None \<Rightarrow> 0 | Some g \<Rightarrow> g)"
    by (auto simp: subscription_get_by_account_def split: if_splits option.splits)
  from r have "r \<in> set (subscriptions (live d))"
    by (auto simp: find_Some_iff)
  with assms(1) have "c_grace_until r = Some 0"
    by (simp add: list_all_iff)
  with g show ?thesis by simp
qed

text \<open>
  Claim C10. In every store reached from one without subscription rows and without an
  open transaction by calls of \<open>subscription_create\<close>, \<open>subscription_update\<close> and
  \<open>billing_mark_as_paid\<close>, whatever their faults, every subscription row has
  grace_until 0; hence a subscription read from it has \<open>grace_until = 0\<close>, the grace
  test \<open>grace_until > 0 && now <= grace_until\<close> is false at every time, and a cancelled
  or expired subscription is never valid.
\<close>

theorem C10_grace_until_stays_zero:
  assumes "subscriptions (live d) = []" and "txn d = None"
  shows "list_all (\<lambda>r. c_grace_until r = Some 0) (subscriptions (live (run ops d)))
     \<and> (\<forall>q acct sub now. subscription_get_by_account q acct (run ops d) = Some sub \<longrightarrow>
           grace_until sub = 0
           \<and> \<not> (grace_until sub > 0 \<and> now \<le> grace_until sub)
           \<and> (status sub = STATUS_CANCELLED \<or> status sub = STATUS_EXPIRED
                \<longrightarrow> subscription_is_valid now sub = 0))"
proof -
  from assms have "grace_zero d"
    by (simp add: grace_zero_def)
  then have "grace_zero (run ops d)"
    by (rule grace_zero_run)
  then have all: "list_all (\<lambda>r. c_grace_until r = Some 0) (subscriptions (live (run ops d)))"
    by (simp add: grace_zero_def)
  show ?thesis
  proof (intro conjI allI impI)
    show "list_all (\<lambda>r. c_grace_until r = Some 0) (subscriptions (live (run ops d)))"
      by (rule all)
  next
    fix q acct sub and now :: int
    assume "subscription_get_by_account q acct (run ops d) = Some sub"
    then show "grace_until sub = 0"
      by (rule get_grace[OF all])
  next
    fix q acct sub and now :: int
    assume "subscription_get_by_account q acct (run ops d) = Some sub"
    then have "grace_until sub = 0"
      by (rule get_grace[OF all])
    then show "\<not> (grace_until sub > 0 \<and> now \<le> grace_until sub)"
      by simp
  next
    fix q acct sub and now :: int
    assume "subscription_get_by_account q acct (run ops d) = Some sub"
      and "status sub = STATUS_CANCELLED \<or> status sub = STATUS_EXPIRED"
    moreover from this have "grace_until sub = 0"
      by (auto intro: get_grace[OF all])
    ultimately show "subscription_is_valid now sub = 0"
      by (auto simp: subscription_is_valid_def)
  qed
qed


lemmas history_defs =
  run_def cancelled_history_def subscription_create_def update_defs
  update_ok_def log_ok_def paid_ok_def create_ok_def empty_db_def no_faults_def
  subscription_get_by_account_def sql_update_subscription_def sql_insert_subscription_def
  next_rowid_def safe_strncpy_def subscription_plan_to_string_def
  subscription_status_to_string_def subscription_string_to_plan_def
  subscription_string_to_status_def

text \<open>Claim C10 at a history that creates and then cancels the subscription of account 42.\<close>

theorem C10_witness:
  "subscriptions (live empty_db) = [] \<and> txn empty_db = None
   \<and> list_all (\<lambda>r. c_grace_until r = Some 0)
        (subscriptions (live (run cancelled_history empty_db)))
   \<and> (\<exists>sub. subscription_get_by_account no_faults 42 (run cancelled_history empty_db) = Some sub
          \<and> status sub = STATUS_CANCELLED \<and> grace_until sub = 0
          \<and> subscription_is_valid 2500 sub = 0)"
proof -
  have h1: "subscriptions (live empty_db) = []" and h2: "txn empty_db = None"
    by (simp_all add: empty_db_def)
  obtain sub where sub: "subscription_get_by_account no_faults 42
                           (run cancelled_history empty_db) = Some sub"
    and st: "status sub = STATUS_CANCELLED"
    by (simp add: history_defs)
  from C10_grace_until_stays_zero [OF h1 h2, of cancelled_history] sub st h1 h2
  show ?thesis by auto
qed

subsection \<open>Replay of the ledger\<close>

lemma replay_Nil: "replay [] = None"
  by (simp add: replay_def)

lemma replay_snoc: "replay (evs @ [e]) = Some (new_plan e, new_status e)"
  by (simp add: replay_def)

lemma ledger_matches_update:
  assumes "ledger_matches d"
  shows "ledger_matches (snd (subscription_update env acct p s vu admin notes d))"
proof -
  let ?u = "subscription_update env acct p s vu admin notes d"
  from assms have t: "txn d = None"
    by (simp add: ledger_matches_def)
  have t': "txn (snd ?u) = None"
    using t by (rule subscription_update_txn)
  show ?thesis
  proof (cases "fst ?u = 0")
    case False
    then have "live (snd ?u) = live d"
      using t by (simp add: subscription_update_failure)
    with assms t' show ?thesis
      by (simp add: ledger_matches_def events_of_def subscription_row_of_def)
  next
    case True
    then have "?u = (0, snd ?u)"
      by (metis prod.collapse)
    from subscription_update_success[OF t this]
    obtain e r where ev: "billing_events (live (snd ?u)) = billing_events (live d) @ [e]"
      and e: "ev_account_id e = acct" "new_plan e = Some (subscription_plan_to_string p)"
        "new_status e = Some (subscription_status_to_string s)"
      and r: "subscription_row_of acct (snd ?u) = Some r"
        "c_plan r = subscription_plan_to_string p"
        "c_status r = subscription_status_to_string s"
      by blast
    have "replay (events_of a (snd ?u))
            = map_option (\<lambda>r. (Some (c_plan r), Some (c_status r)))
                (subscription_row_of a (snd ?u))" for a
    proof (cases "a = acct")
      case True
      then have "events_of a (snd ?u) = events_of a d @ [e]"
        using ev e(1) by (simp add: events_of_def)
      then show ?thesis
        using True e r by (simp add: replay_snoc)
    next
      case False
      then have "events_of a (snd ?u) = events_of a d"
        using ev e(1) by (simp add: events_of_def)
      moreover have "subscription_row_of a (snd ?u) = subscription_row_of a d"
        using t False by (rule subscription_update_others)
      ultimately show ?thesis
        using assms by (simp add: ledger_matches_def)
    qed
    with t' show ?thesis
      by (simp add: ledger_matches_def)
  qed
qed


lemma ledger_matches_log:
  assumes "ledger_matches d" and "subscription_row_of acct d = Some r"
    and "c_plan r = P" and "c_status r = S"
  shows "ledger_matches
           (snd (billing_log_event env acct et pp (Some P) ps (Some S) am cur pm er adm n d))"
proof -
  let ?l = "billing_log_event env acct et pp (Some P) ps (Some S) am cur pm er adm n d"
  have fr: "txn (snd ?l) = txn d" "subscriptions (live (snd ?l)) = subscriptions (live d)"
    using billing_log_event_frame[of env acct et pp "Some P" ps "Some S" am cur pm er adm n d]
    by simp_all
  then have rows: "subscription_row_of a (snd ?l) = subscription_row_of a d" for a
    by (simp add: subscription_row_of_def)
  from billing_log_event_events[of env acct et pp "Some P" ps "Some S" am cur pm er adm n d]
  consider (appended) e where
      "billing_events (live (snd ?l)) = billing_events (live d) @ [e]"
      "ev_account_id e = acct" "new_plan e = Some P" "new_status e = Some S"
    | (unchanged) "billing_events (live (snd ?l)) = billing_events (live d)"
    by auto
  then show ?thesis
  proof cases
    case appended
    have "replay (events_of a (snd ?l))
            = map_option (\<lambda>r. (Some (c_plan r), Some (c_status r)))
                (subscription_row_of a (snd ?l))" for a
    proof (cases "a = acct")
      case True
      then have "events_of a (snd ?l) = events_of a d @ [e]"
        using appended by (simp add: events_of_def)
      then show ?thesis
        using True appended assms(2-4) rows by (simp add: replay_snoc)
    next
      case False
      then have "events_of a (snd ?l) = events_of a d"
        using appended by (simp add: events_of_def)
      then show ?thesis
        using assms(1) rows by (simp add: ledger_matches_def)
    qed
    with fr assms(1) show ?thesis
      by (simp add: ledger_matches_def)
  next
    case unchanged
    then have "events_of a (snd ?l) = events_of a d" for a
      by (simp add: events_of_def)
    with fr assms(1) rows show ?thesis
      by (simp add: ledger_matches_def)
  qed
qed

lemma ledger_matches_mark_as_paid:
  assumes "ledger_matches d"
  shows "ledger_matches (snd (billing_mark_as_paid env acct p days amount pm ref admin notes d))"
proof -
  let ?vu = "p_now env + int32 (int32 (int32 (days * 24) * 60) * 60)"
  let ?u = "subscription_update (p_update env) acct p STATUS_ACTIVE ?vu admin notes d"
  have m1: "ledger_matches (snd ?u)"
    using assms by (rule ledger_matches_update)
  show ?thesis
  proof (cases "fst ?u = 0")
    case False
    with m1 show ?thesis
      by (simp add: billing_mark_as_paid_unfold)
  next
    case True
    then have "?u = (0, snd ?u)"
      by (metis prod.collapse)
    moreover from assms have "txn d = None"
      by (simp add: ledger_matches_def)
    ultimately obtain r where "subscription_row_of acct (snd ?u) = Some r"
      "c_plan r = subscription_plan_to_string p"
      "c_status r = subscription_status_to_string STATUS_ACTIVE"
      using subscription_update_success[of d "p_update env" acct p STATUS_ACTIVE ?vu admin
          "notes" "snd ?u"]
      by blast
    from ledger_matches_log[OF m1 this] True show ?thesis
      by (simp add: billing_mark_as_paid_unfold)
  qed
qed

lemma ledger_matches_apply_op: "ledger_matches d \<Longrightarrow> ledger_matches (apply_op x d)"
  by (cases x)
     (simp_all add: subscription_create_def Let_def ledger_matches_update
        ledger_matches_mark_as_paid)

lemma ledger_matches_run: "ledger_matches d \<Longrightarrow> ledger_matches (run ops d)"
  by (induction ops arbitrary: d) (simp_all add: run_Nil run_Cons ledger_matches_apply_op)

text \<open>
  Claim C7, amended. In every store reached from one with no subscription rows, an empty
  ledger and no open transaction by calls of \<open>subscription_create\<close>,
  \<open>subscription_update\<close> and \<open>billing_mark_as_paid\<close>, replaying the ledger rows of an
  account in order gives the plan and the status of the account's subscription row, and
  nothing when the account has no row.
\<close>

theorem C7_replay_gives_plan_and_status:
  assumes "subscriptions (live d) = []" and "billing_events (live d) = []" and "txn d = None"
  shows "replay (events_of acct (run ops d))
           = map_option (\<lambda>r. (Some (c_plan r), Some (c_status r)))
               (subscription_row_of acct (run ops d))"
proof -
  from assms have "ledger_matches d"
    by (simp add: ledger_matches_def events_of_def subscription_row_of_def replay_Nil)
  then have "ledger_matches (run ops d)"
    by (rule ledger_matches_run)
  then show ?thesis
    by (simp add: ledger_matches_def)
qed

text \<open>
  Claim C7, as stated, fails: two histories that differ in \<open>valid_until\<close> only leave the
  same ledger and different subscription rows, and at time 5000 the account is entitled
  to CSV export after one and not after the other. The ledger does not record the
  validity window, so neither the row nor the entitlement can be rebuilt from it.
\<close>

theorem C7_counterexample:
  "billing_events (live (run [Update (update_ok 1000) 1 PLAN_PRO STATUS_ACTIVE 2000 7 None]
       empty_db))
     = billing_events (live (run [Update (update_ok 1000) 1 PLAN_PRO STATUS_ACTIVE 9000 7 None]
       empty_db))
   \<and> subscription_row_of 1 (run [Update (update_ok 1000) 1 PLAN_PRO STATUS_ACTIVE 2000 7 None]
       empty_db)
     \<noteq> subscription_row_of 1 (run [Update (update_ok 1000) 1 PLAN_PRO STATUS_ACTIVE 9000 7 None]
       empty_db)
   \<and> entitlement_has_feature (entitlement_ok 5000) 1 FEATURE_CSV_EXPORT
       (run [Update (update_ok 1000) 1 PLAN_PRO STATUS_ACTIVE 2000 7 None] empty_db) = 0
   \<and> entitlement_has_feature (entitlement_ok 5000) 1 FEATURE_CSV_EXPORT
       (run [Update (update_ok 1000) 1 PLAN_PRO STATUS_ACTIVE 9000 7 None] empty_db) = 1"
  by (simp add: history_defs subscription_row_of_def entitlement_has_feature_def
      entitlement_ok_def subscription_is_valid_def)

text \<open>Claim C7 (amended) at the history that creates and then cancels the subscription of account 42.\<close>

theorem C7_witness:
  "subscriptions (live empty_db) = [] \<and> billing_events (live empty_db) = []
   \<and> txn empty_db = None
   \<and> replay (events_of 42 (run cancelled_history empty_db))
       = Some (Some ''pro'', Some ''cancelled'')
   \<and> map_option (\<lambda>r. (Some (c_plan r), Some (c_status r)))
        (subscription_row_of 42 (run cancelled_history empty_db))
       = Some (Some ''pro'', Some ''cancelled'')"
proof -
  have h1: "subscriptions (live empty_db) = []" and h2: "billing_events (live empty_db) = []"
    and h3: "txn empty_db = None"
    by (simp_all add: empty_db_def)
  have "map_option (\<lambda>r. (Some (c_plan r), Some (c_status r)))
          (subscription_row_of 42 (run cancelled_history empty_db))
        = Some (Some ''pro'', Some ''cancelled'')"
    by (simp add: history_defs subscription_row_of_def)
  with C7_replay_gives_plan_and_status [OF h1 h2 h3, of 42 cancelled_history] h1 h2 h3
  show ?thesis by simp
qed

subsection \<open>session_validate\<close>

lemma first_row_Some: "(case xs of [] \<Rightarrow> None | x # rest \<Rightarrow> Some x) = Some y \<Longrightarrow> y \<in> set xs"
  by (cases xs) auto

lemma sql_select_session_Some:
  assumes "sql_select_session tok t = Some (s, u)"
  shows "s \<in> set (sessions t) \<and> u \<in> set (users t) \<and> s_user_id s = u_id u
         \<and> token s = tok \<and> is_active u = 1"
  using first_row_Some[OF assms[unfolded sql_select_session_def]]
  by (auto split: if_splits)

lemma first_row_None: "(case xs of [] \<Rightarrow> None | x # rest \<Rightarrow> Some x) = None \<longleftrightarrow> set xs = {}"
  by (cases xs) simp_all

lemma sql_select_session_None:
  "sql_select_session tok t = None \<longleftrightarrow>
     \<not> (\<exists>s \<in> set (sessions t). \<exists>u \<in> set (users t).
           s_user_id s = u_id u \<and> token s = tok \<and> is_active u = 1)"
  unfolding sql_select_session_def first_row_None by auto

lemma session_update_activity_frame:
  "\<exists>f. sessions (live (snd (session_update_activity env tok d)))
         = map (\<lambda>s. s\<lparr>last_activity_at := f s\<rparr>) (sessions (live d))"
proof (cases "prepare_fails (a_update env) \<or> step_fails (a_update env)")
  case True
  then have "sessions (live (snd (session_update_activity env tok d)))
               = map (\<lambda>s. s\<lparr>last_activity_at := last_activity_at s\<rparr>) (sessions (live d))"
    by (auto simp: session_update_activity_def Let_def)
  then show ?thesis by (rule exI[where x = last_activity_at])
next
  case False
  then have "sessions (live (snd (session_update_activity env tok d)))
       = map (\<lambda>s. s\<lparr>last_activity_at := (if token s = tok then a_now env else last_activity_at s)\<rparr>)
           (sessions (live d))"
    by (auto simp: session_update_activity_def Let_def intro!: map_cong)
  then show ?thesis
    by (rule exI[where x = "\<lambda>s. if token s = tok then a_now env else last_activity_at s"])
qed

lemma session_update_activity_others:
  "subscriptions (live (snd (session_update_activity env tok d))) = subscriptions (live d)
   \<and> billing_events (live (snd (session_update_activity env tok d))) = billing_events (live d)
   \<and> users (live (snd (session_update_activity env tok d))) = users (live d)
   \<and> txn (snd (session_update_activity env tok d)) = txn d"
  by (simp add: session_update_activity_def Let_def)

lemma session_update_activity_ok:
  "\<not> prepare_fails (a_update env) \<Longrightarrow> \<not> step_fails (a_update env) \<Longrightarrow>
   sessions (live (snd (session_update_activity env tok d)))
     = map (\<lambda>s. if token s = tok then s\<lparr>last_activity_at := a_now env\<rparr> else s)
         (sessions (live d))"
  by (simp add: session_update_activity_def Let_def)

lemma session_validate_cases:
  "session_validate env tok_opt req d =
     (case tok_opt of
        None \<Rightarrow> (0, req, d)
      | Some tok \<Rightarrow>
          (case session_lookup env tok d of
             None \<Rightarrow> (0, req, d)
           | Some (s, u) \<Rightarrow>
               if v_now env > expires_at s
                  \<or> v_now env - last_activity_at s > SESSION_INACTIVITY_SECONDS
               then (0, req, d)
               else (1, req\<lparr>user_id := s_user_id s, account_id := u_account_id u,
                             user_email := take 255 (email u), user_role := take 15 (role u),
                             is_authenticated := 1\<rparr>,
                     snd (session_update_activity (v_activity env) tok d))))"
  by (auto simp: session_validate_def session_lookup_def Let_def safe_strncpy_def
      split: option.splits prod.splits)


text \<open>
  The sweep and the check agree on the limits: a session that the lookup finds is
  accepted at a time exactly when a sweep at that time keeps it.
\<close>

lemma session_cleanup_expired_sessions:
  "\<not> prepare_fails (cl_delete env) \<Longrightarrow> \<not> step_fails (cl_delete env) \<Longrightarrow>
   sessions (live (snd (session_cleanup_expired env d)))
     = filter (\<lambda>s. \<not> (cl_now env > expires_at s
                        \<or> cl_now env - last_activity_at s > SESSION_INACTIVITY_SECONDS))
         (sessions (live d))"
  by (auto simp: session_cleanup_expired_def Let_def intro!: filter_cong)

lemma validate_agrees_with_cleanup:
  assumes "session_lookup env tok d = Some (s, u)"
  shows "fst (session_validate env (Some tok) req d) = 1 \<longleftrightarrow>
           s \<in> set (sessions (live (snd (session_cleanup_expired
                     \<lparr>cl_now = v_now env, cl_delete = no_faults\<rparr> d))))"
proof -
  from assms have "sql_select_session tok (live d) = Some (s, u)"
    by (simp add: session_lookup_def split: if_splits)
  then have "s \<in> set (sessions (live d))"
    by (simp add: sql_select_session_Some)
  then show ?thesis
    using assms
    by (simp add: session_validate_cases session_cleanup_expired_sessions no_faults_def)
qed

lemmas session_eval_defs =
  session_validate_cases session_lookup_def sql_select_session_def session_update_activity_def
  SESSION_INACTIVITY_SECONDS_def validate_ok_def validate_activity_fails_def session_db_def
  anonymous_request_def no_faults_def Let_def

text \<open>
  Claim C5, as stated, fails at both boundaries: session \<open>abc\<close> is validated at time
  605800, which is its \<open>expires_at\<close>, and session \<open>def\<close> is validated at time 605400,
  exactly one inactivity window (86400 seconds) after its last activity.
\<close>

theorem C5_counterexample:
  "map (\<lambda>s. (token s, expires_at s, last_activity_at s)) (sessions (live session_db))
     = [(''abc'', 605800, 600000), (''def'', 606800, 519000)]
   \<and> v_now (validate_ok 605800) \<ge> 605800
   \<and> fst (session_validate (validate_ok 605800) (Some ''abc'')
          (anonymous_request HTTP_GET ''/dashboard'' []) session_db) = 1
   \<and> v_now (validate_ok 605400) - 519000 \<ge> SESSION_INACTIVITY_SECONDS
   \<and> fst (session_validate (validate_ok 605400) (Some ''def'')
          (anonymous_request HTTP_GET ''/dashboard'' []) session_db) = 1"
  by (simp add: session_eval_defs)

text \<open>
  Claim C5, amended. \<open>session_validate\<close> returns 0 or 1. It returns 0 exactly when the
  token is NULL, or the lookup yields no row (no session with the token whose user is
  active, or a fault of the SELECT), or \<open>now > expires_at\<close>, or
  \<open>now - last_activity_at > 86400\<close>; then the request and the store are unchanged.
  Otherwise it returns 1, and the request holds the session's user id, the user's account
  id, email and role, and \<open>is_authenticated = 1\<close>.
\<close>

theorem C5_session_validate_checks:
  assumes "session_validate env tok req d = (rc, req', d')"
  shows "(rc = 0 \<or> rc = 1)
     \<and> (rc = 0 \<longleftrightarrow>
          tok = None
          \<or> (\<exists>t. tok = Some t \<and> session_lookup env t d = None)
          \<or> (\<exists>t s u. tok = Some t \<and> session_lookup env t d = Some (s, u)
                \<and> (v_now env > expires_at s
                     \<or> v_now env - last_activity_at s > SESSION_INACTIVITY_SECONDS)))
     \<and> (rc = 0 \<longrightarrow> req' = req \<and> d' = d)
     \<and> (rc = 1 \<longrightarrow>
          (\<exists>t s u. tok = Some t \<and> session_lookup env t d = Some (s, u)
             \<and> v_now env \<le> expires_at s
             \<and> v_now env - last_activity_at s \<le> SESSION_INACTIVITY_SECONDS
             \<and> user_id req' = s_user_id s \<and> account_id req' = u_account_id u
             \<and> user_email req' = take 255 (email u) \<and> user_role req' = take 15 (role u)
             \<and> is_authenticated req' = 1))"
proof (cases tok)
  case None
  with assms show ?thesis
    by (simp add: session_validate_cases)
next
  case (Some t)
  show ?thesis
  proof (cases "session_lookup env t d")
    case None
    with Some assms show ?thesis
      by (simp add: session_validate_cases)
  next
    case (Some row)
    obtain s u where row: "row = (s, u)"
      by (cases row)
    show ?thesis
    proof (cases "v_now env > expires_at s
                  \<or> v_now env - last_activity_at s > SESSION_INACTIVITY_SECONDS")
      case True
      with \<open>tok = Some t\<close> Some row assms show ?thesis
        by (auto simp: session_validate_cases)
    next
      case False
      with \<open>tok = Some t\<close> Some row assms show ?thesis
        by (auto simp: session_validate_cases)
    qed
  qed
qed

text \<open>Claim C5 (amended) at session \<open>abc\<close>, validated at time 600100 and refused at time 700000.\<close>

theorem C5_witness:
  "fst (session_validate (validate_ok 600100) (Some ''abc'')
          (anonymous_request HTTP_GET ''/dashboard'' []) session_db) = 1
   \<and> user_id (fst (snd (session_validate (validate_ok 600100) (Some ''abc'')
          (anonymous_request HTTP_GET ''/dashboard'' []) session_db))) = 7
   \<and> account_id (fst (snd (session_validate (validate_ok 600100) (Some ''abc'')
          (anonymous_request HTTP_GET ''/dashboard'' []) session_db))) = 42
   \<and> user_role (fst (snd (session_validate (validate_ok 600100) (Some ''abc'')
          (anonymous_request HTTP_GET ''/dashboard'' []) session_db))) = ''user''
   \<and> is_authenticated (fst (snd (session_validate (validate_ok 600100) (Some ''abc'')
          (anonymous_request HTTP_GET ''/dashboard'' []) session_db))) = 1
   \<and> fst (session_validate (validate_ok 700000) (Some ''abc'')
          (anonymous_request HTTP_GET ''/dashboard'' []) session_db) = 0"
proof -
  let ?v = "\<lambda>now. session_validate (validate_ok now) (Some ''abc'')
               (anonymous_request HTTP_GET ''/dashboard'' []) session_db"
  have h: "?v now = (fst (?v now), fst (snd (?v now)), snd (snd (?v now)))" for now
    by simp
  have l: "session_lookup (validate_ok now) ''abc'' session_db
             = Some (\<lparr>s_id = 1, s_user_id = 7, token = ''abc'', created_at = 1000,
                       expires_at = 605800, last_activity_at = 600000,
                       ip_address = ''127.0.0.1'', user_agent = ''curl''\<rparr>,
                     \<lparr>u_id = 7, u_account_id = 42, email = ''a@example.com'',
                       role = ''user'', is_active = 1\<rparr>)" for now
    by (simp add: session_lookup_def sql_select_session_def validate_ok_def session_db_def
        no_faults_def)
  have n: "v_now (validate_ok now) = now" for now
    by (simp add: validate_ok_def)
  have ok: "fst (?v 600100) = 1" and ko: "fst (?v 700000) = 0"
    by (simp_all add: session_eval_defs)
  from C5_session_validate_checks [OF h [of 600100]] ok ko
  show ?thesis
    by (auto simp: l n)
qed

text \<open>
  Claim C8, as stated, fails: when the UPDATE of \<open>session_update_activity\<close> reports an
  error, \<open>session_validate\<close> still returns 1 and \<open>last_activity_at\<close> of the session stays
  at 600000 instead of the current time 600100.
\<close>

theorem C8_counterexample:
  "fst (session_validate (validate_activity_fails 600100) (Some ''abc'')
          (anonymous_request HTTP_GET ''/dashboard'' []) session_db) = 1
   \<and> a_now (v_activity (validate_activity_fails 600100)) = 600100
   \<and> map (\<lambda>s. (token s, last_activity_at s))
        (sessions (live (snd (snd (session_validate (validate_activity_fails 600100)
           (Some ''abc'') (anonymous_request HTTP_GET ''/dashboard'' []) session_db)))))
       = [(''abc'', 600000), (''def'', 519000)]"
  by (simp add: session_eval_defs)

text \<open>
  Claim C8, amended. After a successful \<open>session_validate\<close> every session row is the row
  it was, up to \<open>last_activity_at\<close>: id, user id, token, \<open>created_at\<close> and \<open>expires_at\<close>
  are unchanged, and so are all other tables. When the UPDATE of
  \<open>session_update_activity\<close> succeeds, \<open>last_activity_at\<close> of the rows with the token is
  the time that function reads, and the other rows are unchanged.
\<close>

theorem C8_validate_touches_last_activity_only:
  assumes "session_validate env tok req d = (1, req', d')"
  shows "(\<exists>f. sessions (live d') = map (\<lambda>s. s\<lparr>last_activity_at := f s\<rparr>) (sessions (live d)))
     \<and> map s_id (sessions (live d')) = map s_id (sessions (live d))
     \<and> map s_user_id (sessions (live d')) = map s_user_id (sessions (live d))
     \<and> map token (sessions (live d')) = map token (sessions (live d))
     \<and> map created_at (sessions (live d')) = map created_at (sessions (live d))
     \<and> map expires_at (sessions (live d')) = map expires_at (sessions (live d))
     \<and> users (live d') = users (live d)
     \<and> subscriptions (live d') = subscriptions (live d)
     \<and> billing_events (live d') = billing_events (live d)
     \<and> txn d' = txn d
     \<and> (\<not> prepare_fails (a_update (v_activity env)) \<and> \<not> step_fails (a_update (v_activity env))
          \<longrightarrow> (\<exists>t. tok = Some t
                 \<and> sessions (live d')
                     = map (\<lambda>s. if token s = t
                                 then s\<lparr>last_activity_at := a_now (v_activity env)\<rparr> else s)
                         (sessions (live d))))"
proof -
  from assms obtain t where t: "tok = Some t"
    and d': "d' = snd (session_update_activity (v_activity env) t d)"
    by (auto simp: session_validate_cases split: option.splits if_splits)
  from session_update_activity_frame[of "v_activity env" t d]
  obtain f where f: "sessions (live d') = map (\<lambda>s. s\<lparr>last_activity_at := f s\<rparr>) (sessions (live d))"
    unfolding d' by blast
  have 1: "\<exists>f. sessions (live d') = map (\<lambda>s. s\<lparr>last_activity_at := f s\<rparr>) (sessions (live d))"
    by (rule exI[where x = f]) (rule f)
  have 2: "map s_id (sessions (live d')) = map s_id (sessions (live d))"
    "map s_user_id (sessions (live d')) = map s_user_id (sessions (live d))"
    "map token (sessions (live d')) = map token (sessions (live d))"
    "map created_at (sessions (live d')) = map created_at (sessions (live d))"
    "map expires_at (sessions (live d')) = map expires_at (sessions (live d))"
    unfolding f by (simp_all add: comp_def)
  have 3: "users (live d') = users (live d)" "subscriptions (live d') = subscriptions (live d)"
    "billing_events (live d') = billing_events (live d)" "txn d' = txn d"
    unfolding d' using session_update_activity_others[of "v_activity env" t d] by simp_all
  have 4: "\<not> prepare_fails (a_update (v_activity env)) \<and> \<not> step_fails (a_update (v_activity env))
          \<longrightarrow> (\<exists>t. tok = Some t
                 \<and> sessions (live d')
                     = map (\<lambda>s. if token s = t
                                 then s\<lparr>last_activity_at := a_now (v_activity env)\<rparr> else s)
                         (sessions (live d)))"
    unfolding d' using t by (simp add: session_update_activity_ok)
  from 1 2 3 4 show ?thesis by blast
qed

text \<open>Claim C8 (amended) at session \<open>abc\<close>, validated at time 600100.\<close>

theorem C8_witness:
  "fst (session_validate (validate_ok 600100) (Some ''abc'')
          (anonymous_request HTTP_GET ''/dashboard'' []) session_db) = 1
   \<and> map (\<lambda>s. (token s, last_activity_at s))
        (sessions (live (snd (snd (session_validate (validate_ok 600100)
           (Some ''abc'') (anonymous_request HTTP_GET ''/dashboard'' []) session_db)))))
       = [(''abc'', 600100), (''def'', 519000)]
   \<and> map expires_at
        (sessions (live (snd (snd (session_validate (validate_ok 600100)
           (Some ''abc'') (anonymous_request HTTP_GET ''/dashboard'' []) session_db)))))
       = [605800, 606800]"
proof -
  let ?v = "session_validate (validate_ok 600100) (Some ''abc'')
              (anonymous_request HTTP_GET ''/dashboard'' []) session_db"
  have ok: "fst ?v = 1"
    by (simp add: session_eval_defs)
  then have h: "?v = (1, fst (snd ?v), snd (snd ?v))"
    by (metis prod.collapse)
  have nf: "\<not> prepare_fails (a_update (v_activity (validate_ok 600100)))"
    "\<not> step_fails (a_update (v_activity (validate_ok 600100)))"
    "a_now (v_activity (validate_ok 600100)) = 600100"
    by (simp_all add: validate_ok_def no_faults_def)
  from C8_validate_touches_last_activity_only [OF h] nf ok
  show ?thesis
    by (simp add: session_db_def)
qed

subsection \<open>router_handle_request\<close>

lemma router_handle_request_find:
  "router_handle_request routes req =
     (case find (\<lambda>r. route_method r = req_method req \<and> route_path r = req_path req) routes of
        None \<Rightarrow> router_handle_request [] req
      | Some r \<Rightarrow>
          if requires_auth r \<noteq> 0 \<and> is_authenticated req = 0
          then Responded (response_redirect response_new ''/login'' 0)
          else if requires_admin r \<noteq> 0 \<and> user_role req \<noteq> ''admin''
          then Responded forbidden_response
          else Dispatched (handler r))"
  by (induction routes) (simp_all add: forbidden_response_def)

lemma registered_routes_eq:
  "registered_routes =
     [\<lparr>route_method = HTTP_GET, route_path = ''/'', handler = handle_home_page,
        requires_auth = 0, requires_admin = 0\<rparr>,
      \<lparr>route_method = HTTP_GET, route_path = ''/login'', handler = handle_login_page,
        requires_auth = 0, requires_admin = 0\<rparr>,
      \<lparr>route_method = HTTP_POST, route_path = ''/login'', handler = handle_login_submit,
        requires_auth = 0, requires_admin = 0\<rparr>,
      \<lparr>route_method = HTTP_GET, route_path = ''/logout'', handler = handle_logout,
        requires_auth = 0, requires_admin = 0\<rparr>,
      \<lparr>route_method = HTTP_GET, route_path = ''/dashboard'', handler = handle_dashboard,
        requires_auth = 1, requires_admin = 0\<rparr>,
      \<lparr>route_method = HTTP_GET, route_path = ''/billing'', handler = handle_billing_page,
        requires_auth = 1, requires_admin = 0\<rparr>,
      \<lparr>route_method = HTTP_GET, route_path = ''/reports'', handler = handle_reports_page,
        requires_auth = 1, requires_admin = 0\<rparr>,
      \<lparr>route_method = HTTP_POST, route_path = ''/reports/generate'',
        handler = handle_reports_generate, requires_auth = 1, requires_admin = 0\<rparr>,
      \<lparr>route_method = HTTP_GET, route_path = ''/reports/export'',
        handler = handle_reports_export_csv, requires_auth = 1, requires_admin = 0\<rparr>,
      \<lparr>route_method = HTTP_GET, route_path = ''/admin/billing'',
        handler = handle_admin_billing_page, requires_auth = 1, requires_admin = 1\<rparr>,
      \<lparr>route_method = HTTP_POST, route_path = ''/admin/billing/mark-paid'',
        handler = handle_admin_mark_paid, requires_auth = 1, requires_admin = 1\<rparr>,
      \<lparr>route_method = HTTP_POST, route_path = ''/admin/search'',
        handler = handle_admin_search_accounts, requires_auth = 1, requires_admin = 1\<rparr>]"
  by (simp add: registered_routes_def routes_register_all_def router_init_def
      router_add_route_def MAX_ROUTES_def Let_def)

lemma registered_admin_requires_auth:
  "r \<in> set registered_routes \<Longrightarrow> requires_admin r \<noteq> 0 \<Longrightarrow> requires_auth r \<noteq> 0"
  unfolding registered_routes_eq by auto

lemma redirect_login_response:
  "response_redirect response_new ''/login'' 0 =
     \<lparr>status_code = 302, status_message = ''Found'',
      headers = [''Location: /login'', ''Content-Length: 0''], body = ''''\<rparr>"
  by (simp add: response_redirect_def response_new_def response_set_status_def
      response_add_header_def response_set_body_def MAX_RESPONSE_HEADERS_def)

lemma forbidden_response_eq:
  "forbidden_response =
     \<lparr>status_code = 403, status_message = ''Forbidden'',
      headers = [''Content-Type: text/html'', ''Content-Length: 50''],
      body = ''<h1>403 Forbidden</h1><p>Admin access required</p>''\<rparr>"
  by (simp add: forbidden_response_def response_new_def response_set_status_def
      response_add_header_def response_set_body_def response_set_content_type_def
      MAX_RESPONSE_HEADERS_def)

text \<open>
  Claim C6. For every request whose route in the server's route table requires the admin
  role: when the requester is authenticated and its role is not admin, the router answers
  403 Forbidden, without a redirect to the login page; when the requester is not
  authenticated, the router answers with the redirect (302) to /login.
\<close>

theorem C6_admin_routes:
  assumes "find (\<lambda>r. route_method r = req_method req \<and> route_path r = req_path req) registered_routes
             = Some r"
    and "requires_admin r \<noteq> 0"
  shows "(is_authenticated req \<noteq> 0 \<and> user_role req \<noteq> ''admin'' \<longrightarrow>
            router_handle_request registered_routes req = Responded forbidden_response
            \<and> status_code forbidden_response = 403
            \<and> ''Location: /login'' \<notin> set (headers forbidden_response))
       \<and> (is_authenticated req = 0 \<longrightarrow>
            router_handle_request registered_routes req
              = Responded (response_redirect response_new ''/login'' 0)
            \<and> status_code (response_redirect response_new ''/login'' 0) = 302
            \<and> ''Location: /login'' \<in> set (headers (response_redirect response_new ''/login'' 0)))"
proof -
  from assms(1) have "r \<in> set registered_routes"
    by (auto simp: find_Some_iff in_set_conv_nth)
  then have auth: "requires_auth r \<noteq> 0"
    using assms(2) by (rule registered_admin_requires_auth)
  show ?thesis
    using assms auth
    by (simp add: router_handle_request_find redirect_login_response forbidden_response_eq)
qed


text \<open>Claim C6 at GET /admin/billing, by an authenticated user of role user and by an anonymous client.\<close>

theorem C6_witness:
  "find (\<lambda>r. route_method r = HTTP_GET \<and> route_path r = ''/admin/billing'') registered_routes
     = Some admin_billing_route
   \<and> requires_admin admin_billing_route \<noteq> 0
   \<and> router_handle_request registered_routes (user_request HTTP_GET ''/admin/billing'')
       = Responded forbidden_response
   \<and> router_handle_request registered_routes (anonymous_request HTTP_GET ''/admin/billing'' [])
       = Responded (response_redirect response_new ''/login'' 0)"
proof -
  have f: "find (\<lambda>r. route_method r = HTTP_GET \<and> route_path r = ''/admin/billing'')
             registered_routes = Some admin_billing_route"
    by (simp add: registered_routes_eq admin_billing_route_def)
  have a: "requires_admin admin_billing_route \<noteq> 0"
    by (simp add: admin_billing_route_def)
  have f1: "find (\<lambda>r. route_method r = req_method (user_request HTTP_GET ''/admin/billing'')
                      \<and> route_path r = req_path (user_request HTTP_GET ''/admin/billing''))
             registered_routes = Some admin_billing_route"
    using f by (simp add: user_request_def)
  have f2: "find (\<lambda>r. route_method r = req_method (anonymous_request HTTP_GET ''/admin/billing'' [])
                      \<and> route_path r = req_path (anonymous_request HTTP_GET ''/admin/billing'' []))
             registered_routes = Some admin_billing_route"
    using f by (simp add: anonymous_request_def)
  from C6_admin_routes [OF f1 a] C6_admin_routes [OF f2 a] f a
  show ?thesis
    by (simp add: user_request_def anonymous_request_def)
qed

subsection \<open>The session cookie\<close>

lemma cookie_loop_named:
  "request_get_cookie_loop (c # cs) name =
     (if cookie_named name c then Some (drop (length name + 1) c)
      else request_get_cookie_loop cs name)"
  by (simp add: cookie_named_def)

lemma cookie_loop_None:
  "request_get_cookie_loop cs name = None \<longleftrightarrow> \<not> list_ex (cookie_named name) cs"
  by (induction cs) (simp_all add: cookie_named_def)

lemma cookie_loop_first:
  "\<not> list_ex (cookie_named name) pre \<Longrightarrow>
   request_get_cookie_loop (pre @ cs) name = request_get_cookie_loop cs name"
  by (induction pre) (auto simp: cookie_named_def)

lemma login_cookie_names:
  "cookie_named ''session_token'' (login_cookie tok) \<and> \<not> cookie_named ''session'' (login_cookie tok)"
  by (simp add: cookie_named_def login_cookie_def)

lemma session_cookie_named:
  "cookie_named ''session'' (''session'' @ ''='' @ v)
   \<and> drop (length ''session'' + 1) (''session'' @ ''='' @ v) = v"
  by (simp add: cookie_named_def)

lemma login_cookie_skipped:
  "request_get_cookie_loop (cs1 @ login_cookie tok # cs2) ''session''
     = request_get_cookie_loop (cs1 @ cs2) ''session''"
  by (induction cs1) (simp_all add: login_cookie_def)

text \<open>
  Claim C9, as stated, fails: a request that presents the login cookie of the valid
  session \<open>abc\<close> together with a cookie \<open>session=abc\<close> is validated with that token
  and reaches the handler of /dashboard authenticated.
\<close>

theorem C9_counterexample:
  "fst (session_validate (validate_ok 600100) (Some ''abc'')
          (anonymous_request HTTP_GET ''/dashboard'' [login_cookie ''abc'', ''session=abc''])
          session_db) = 1
   \<and> request_get_cookie
        (anonymous_request HTTP_GET ''/dashboard'' [login_cookie ''abc'', ''session=abc''])
        ''session'' = Some ''abc''
   \<and> is_authenticated (fst (server_validate_session (validate_ok 600100)
        (anonymous_request HTTP_GET ''/dashboard'' [login_cookie ''abc'', ''session=abc''])
        session_db)) = 1
   \<and> fst (server_handle_client (server_ok 600100) registered_routes
        (Some (HTTP_GET, ''/dashboard'', [login_cookie ''abc'', ''session=abc'']))
        ''127.0.0.1'' session_db) = Dispatched handle_dashboard"
  by (simp add: session_eval_defs server_handle_client_def server_validate_session_def
      request_get_cookie_def login_cookie_def server_ok_def safe_strncpy_def
      router_handle_request_find registered_routes_eq)

text \<open>
  Claim C9, amended. Login issues the token under the cookie name \<open>session_token\<close> and
  the pipeline looks it up under the name \<open>session\<close>. For a request that presents the
  login cookie and no cookie named \<open>session\<close>, whatever its other cookies, the lookup
  finds nothing, \<open>session_validate\<close> is not called (request and store stay as they are),
  and the request reaches the router with \<open>is_authenticated = 0\<close>. The name that is read
  is \<open>session\<close>: the value of the first cookie of that name is what the lookup returns
  and what \<open>session_validate\<close> is called with.
\<close>

theorem C9_login_cookie_without_session_cookie:
  assumes "\<not> list_ex (cookie_named ''session'') (pre @ post)"
  shows "cookie_named ''session_token'' (login_cookie tok)
     \<and> request_get_cookie (req\<lparr>cookies := pre @ login_cookie tok # post\<rparr>) ''session'' = None
     \<and> server_validate_session env (req\<lparr>cookies := pre @ login_cookie tok # post\<rparr>) d
         = (req\<lparr>cookies := pre @ login_cookie tok # post\<rparr>, d)
     \<and> server_handle_client senv routes (Some (m, p, pre @ login_cookie tok # post)) ip d
         = (if rate_result senv = RATELIMIT_EXCEEDED
            then (Responded (send_error_response 429 ''Too Many Requests''), d)
            else (router_handle_request routes
                    \<lparr>req_method = m, req_path = p, cookies = pre @ login_cookie tok # post,
                     client_ip = safe_strncpy '''' ip 64, user_id = 0, account_id = 0,
                     user_email = '''', user_role = '''', is_authenticated = 0\<rparr>, d))
     \<and> request_get_cookie (req\<lparr>cookies := pre @ (''session'' @ ''='' @ v) # rest\<rparr>) ''session''
         = Some v
     \<and> server_validate_session env (req\<lparr>cookies := pre @ (''session'' @ ''='' @ v) # rest\<rparr>) d
         = snd (session_validate env (Some v)
                  (req\<lparr>cookies := pre @ (''session'' @ ''='' @ v) # rest\<rparr>) d)"
proof -
  from assms have pre: "\<not> list_ex (cookie_named ''session'') pre"
    by simp
  have none: "request_get_cookie_loop (pre @ login_cookie tok # post) ''session'' = None"
    using assms by (simp add: login_cookie_skipped cookie_loop_None)
  have some: "request_get_cookie_loop (pre @ (''session'' @ ''='' @ v) # rest) ''session''
                = Some v"
    using cookie_loop_first[OF pre] by simp
  show ?thesis
    using none some login_cookie_names[of tok]
    by (simp add: request_get_cookie_def server_validate_session_def server_handle_client_def
        split: prod.splits)
qed

text \<open>
  Claim C9 (amended) at session \<open>abc\<close>: the token is valid at time 600100, and a request
  for /dashboard that presents it in the login cookie, beside an unrelated cookie, is sent
  to the login page.
\<close>

theorem C9_witness:
  "\<not> list_ex (cookie_named ''session'') ([''theme=dark''] @ [])
   \<and> fst (session_validate (validate_ok 600100) (Some ''abc'')
          (anonymous_request HTTP_GET ''/dashboard'' [''theme=dark'', login_cookie ''abc''])
          session_db) = 1
   \<and> server_handle_client (server_ok 600100) registered_routes
        (Some (HTTP_GET, ''/dashboard'', [''theme=dark'', login_cookie ''abc'']))
        ''127.0.0.1'' session_db
       = (Responded (response_redirect response_new ''/login'' 0), session_db)
   \<and> request_get_cookie
        (anonymous_request HTTP_GET ''/dashboard'' [''theme=dark'', ''session=abc''])
        ''session'' = Some ''abc''"
proof -
  have h: "\<not> list_ex (cookie_named ''session'') ([''theme=dark''] @ [])"
    by (simp add: cookie_named_def)
  have v: "fst (session_validate (validate_ok 600100) (Some ''abc'')
          (anonymous_request HTTP_GET ''/dashboard'' [''theme=dark'', login_cookie ''abc''])
          session_db) = 1"
    by (simp add: session_eval_defs)
  from C9_login_cookie_without_session_cookie
         [of "[''theme=dark'']" "[]" "''abc''" "anonymous_request HTTP_GET ''/dashboard'' []" _
             session_db "server_ok 600100" registered_routes HTTP_GET "''/dashboard''"
             "''127.0.0.1''" "''abc''" "[]", OF h]
  have "server_handle_client (server_ok 600100) registered_routes
          (Some (HTTP_GET, ''/dashboard'', [''theme=dark'', login_cookie ''abc'']))
          ''127.0.0.1'' session_db
        = (router_handle_request registered_routes
             \<lparr>req_method = HTTP_GET, req_path = ''/dashboard'',
              cookies = [''theme=dark'', login_cookie ''abc''],
              client_ip = safe_strncpy '''' ''127.0.0.1'' 64, user_id = 0, account_id = 0,
              user_email = '''', user_role = '''', is_authenticated = 0\<rparr>, session_db)"
    and "request_get_cookie
        (anonymous_request HTTP_GET ''/dashboard'' [''theme=dark'', ''session=abc''])
        ''session'' = Some ''abc''"
    by (simp_all add: server_ok_def anonymous_request_def)
  with h v show ?thesis
    by (simp add: router_handle_request_find registered_routes_eq)
qed

end
